theory Spec2Isabelle
  imports Main "HOL-Library.Word" "HOL-Library.Signed_Division"
begin

section \<open>The syntax tree consumed by the evaluator\<close>

text \<open>
  The package \<open>ast\<close> is not part of the sources; the node shapes below are the ones
  \<open>Eval\<close> dispatches on, with exactly the fields the evaluator reads.
  An \<open>*ast.Identifier\<close> is represented by its \<open>Value\<close> (the name), the only field used.
  The \<open>Pairs\<close> of a hash literal are a Go map from key expression to value expression
  (\<open>for key, value := range node.Pairs\<close>); the list of a \<open>HashLiteral\<close> holds them in
  the order in which the range loop visits them.
\<close>

datatype expr =
    IntegerLiteral "64 word"
  | BooleanLiteral bool
  | StringLiteral string
  | PrefixExpression string expr
  | InfixExpression expr string expr
  | IfExpression expr block "block option"
  | Identifier string
  | FunctionLiteral "string list" block
  | CallExpression expr "expr list"
  | ArrayLiteral "expr list"
  | IndexExpression expr expr
  | HashLiteral "(expr \<times> expr) list"
and stmt =
    ExpressionStatement expr
  | ReturnStatement expr
  | LetStatement string expr
and block =
    BlockStatement "stmt list"

datatype node =
    Program "stmt list"
  | Statement stmt
  | Block block
  | Expression expr

section \<open>Objects\<close>

datatype ObjectType =
    INTEGER_OBJ | BOOLEAN_OBJ | NULL_OBJ | RETURN_VALUE_OBJ | ERROR_OBJ
  | FUNCTION_OBJ | STRING_OBJ | BUILTIN_OBJ | ARRAY_OBJ | HASH_OBJ

text \<open>
  Modelled from the spec: \<open>object.go\<close> (the \<open>ObjectType\<close> string constants) is not part
  of the sources. The evaluator prints a type with \<open>%s\<close>; the text printed for each
  constant is taken to be the constant's name without its \<open>_OBJ\<close> suffix.
\<close>

fun ObjectType_string :: "ObjectType \<Rightarrow> string" where
  "ObjectType_string INTEGER_OBJ = ''INTEGER''"
| "ObjectType_string BOOLEAN_OBJ = ''BOOLEAN''"
| "ObjectType_string NULL_OBJ = ''NULL''"
| "ObjectType_string RETURN_VALUE_OBJ = ''RETURN_VALUE''"
| "ObjectType_string ERROR_OBJ = ''ERROR''"
| "ObjectType_string FUNCTION_OBJ = ''FUNCTION''"
| "ObjectType_string STRING_OBJ = ''STRING''"
| "ObjectType_string BUILTIN_OBJ = ''BUILTIN''"
| "ObjectType_string ARRAY_OBJ = ''ARRAY''"
| "ObjectType_string HASH_OBJ = ''HASH''"

text \<open>
  Modelled from the spec: \<open>object.HashKey\<close> is not part of the sources. A hash key is the
  kind tag of an Integer, Boolean or String together with its content, so that two values
  have equal keys iff they have the same kind and the same content.
\<close>

datatype HashKey = IntegerKey "64 word" | BooleanKey bool | StringKey string

type_synonym addr = nat

text \<open>
  An \<open>object.Object\<close> is a Go interface value. \<open>Nil\<close> is the nil interface (what \<open>Eval\<close>
  returns for a let statement and for an empty block). \<open>Boolean\<close> and \<open>Null\<close> are only ever
  the three package-level singletons \<open>TRUE\<close>, \<open>FALSE\<close> and \<open>NULL\<close>. Arrays, hashes,
  functions and return values are allocated by the evaluator and compared by pointer, so
  they carry the identity they were allocated with (the first argument). A function holds
  the address of the environment it captured. A builtin is the registry entry of that name.
\<close>

datatype obj =
    Nil
  | Integer "64 word"
  | Boolean bool
  | String string
  | Null
  | Array nat "obj list"
  | Hash nat "HashKey \<Rightarrow> (obj \<times> obj) option"
  | Function nat "string list" block addr
  | Builtin string
  | ReturnValue nat obj
  | Error string

datatype go_panic =
    NilPointerDereference | IndexOutOfRange | IntegerDivideByZero | InterfaceConversion

abbreviation TRUE :: obj where "TRUE \<equiv> Boolean True"
abbreviation FALSE :: obj where "FALSE \<equiv> Boolean False"
abbreviation NULL :: obj where "NULL \<equiv> Null"

text \<open>The method \<open>Type()\<close>; calling it on the nil interface panics.\<close>

fun Type :: "obj \<Rightarrow> go_panic + ObjectType" where
  "Type Nil = Inl NilPointerDereference"
| "Type (Integer _) = Inr INTEGER_OBJ"
| "Type (Boolean _) = Inr BOOLEAN_OBJ"
| "Type (String _) = Inr STRING_OBJ"
| "Type Null = Inr NULL_OBJ"
| "Type (Array _ _) = Inr ARRAY_OBJ"
| "Type (Hash _ _) = Inr HASH_OBJ"
| "Type (Function _ _ _ _) = Inr FUNCTION_OBJ"
| "Type (Builtin _) = Inr BUILTIN_OBJ"
| "Type (ReturnValue _ _) = Inr RETURN_VALUE_OBJ"
| "Type (Error _) = Inr ERROR_OBJ"

text \<open>
  Modelled from the spec: the interface \<open>object.Hashable\<close> is not part of the sources.
  Only Integer, Boolean and String derive a hash key; \<open>None\<close> is the failed type assertion
  \<open>key.(object.Hashable)\<close>.
\<close>

fun HashKey_of :: "obj \<Rightarrow> HashKey option" where
  "HashKey_of (Integer i) = Some (IntegerKey i)"
| "HashKey_of (Boolean b) = Some (BooleanKey b)"
| "HashKey_of (String s) = Some (StringKey s)"
| "HashKey_of _ = None"

text \<open>
  Comparison \<open>left == right\<close> of two interface values: same dynamic type and same pointer.
  Integers, strings and errors carry no identity here: \<open>evalInfixExpression\<close> handles two
  integers and two strings by value before it compares pointers, and \<open>Eval\<close> never passes
  it an error.
\<close>

definition same_object :: "obj \<Rightarrow> obj \<Rightarrow> bool" where
  "same_object left right =
     (case left of
        Nil \<Rightarrow> (case right of Nil \<Rightarrow> True | _ \<Rightarrow> False)
      | Boolean a \<Rightarrow> (case right of Boolean b \<Rightarrow> a = b | _ \<Rightarrow> False)
      | Null \<Rightarrow> (case right of Null \<Rightarrow> True | _ \<Rightarrow> False)
      | Array i _ \<Rightarrow> (case right of Array j _ \<Rightarrow> i = j | _ \<Rightarrow> False)
      | Hash i _ \<Rightarrow> (case right of Hash j _ \<Rightarrow> i = j | _ \<Rightarrow> False)
      | Function i _ _ _ \<Rightarrow> (case right of Function j _ _ _ \<Rightarrow> i = j | _ \<Rightarrow> False)
      | Builtin a \<Rightarrow> (case right of Builtin b \<Rightarrow> a = b | _ \<Rightarrow> False)
      | ReturnValue i _ \<Rightarrow> (case right of ReturnValue j _ \<Rightarrow> i = j | _ \<Rightarrow> False)
      | _ \<Rightarrow> False)"

section \<open>Environments\<close>

record Environment =
  store :: "string \<Rightarrow> obj option"
  outer :: "addr option"

text \<open>
  Environments are shared by pointer, so they live in a store: \<open>envs\<close> maps an address to
  the environment there, \<open>nextEnv\<close> is the next unused address, and \<open>nextId\<close> is the next
  unused object identity.
\<close>

record state =
  envs :: "addr \<Rightarrow> Environment"
  nextEnv :: addr
  nextId :: nat

definition NewEnvironment :: "state \<Rightarrow> addr \<times> state" where
  "NewEnvironment st =
     (nextEnv st,
      st\<lparr>envs := (envs st)(nextEnv st := \<lparr>store = Map.empty, outer = None\<rparr>),
         nextEnv := nextEnv st + 1\<rparr>)"

definition NewEnclosedEnvironment :: "addr \<Rightarrow> state \<Rightarrow> addr \<times> state" where
  "NewEnclosedEnvironment out st =
     (case NewEnvironment st of
        (env, st') \<Rightarrow> (env, st'\<lparr>envs := (envs st')(env := (envs st' env)\<lparr>outer := Some out\<rparr>)\<rparr>))"

text \<open>
  \<open>Get\<close> calls itself on the enclosing environment; the first argument bounds the depth
  of these calls, and \<open>None\<close> means the bound was reached.
\<close>

fun Get :: "nat \<Rightarrow> state \<Rightarrow> addr \<Rightarrow> string \<Rightarrow> (obj \<times> bool) option" where
  "Get 0 st e key = None"
| "Get (Suc n) st e key =
     (case store (envs st e) key of
        Some val \<Rightarrow> Some (val, True)
      | None \<Rightarrow>
          (case outer (envs st e) of
             Some out \<Rightarrow> Get n st out key
           | None \<Rightarrow> Some (Nil, False)))"

definition Set :: "addr \<Rightarrow> string \<Rightarrow> obj \<Rightarrow> state \<Rightarrow> state" where
  "Set e key val st =
     st\<lparr>envs := (envs st)(e := (envs st e)\<lparr>store := (store (envs st e))(key \<mapsto> val)\<rparr>)\<rparr>"

section \<open>Helper methods\<close>

definition nativeBoolToBooleanObject :: "bool \<Rightarrow> obj" where
  "nativeBoolToBooleanObject input = (if input then TRUE else FALSE)"

fun isTruthy :: "obj \<Rightarrow> bool" where
  "isTruthy Null = False"
| "isTruthy (Boolean True) = True"
| "isTruthy (Boolean False) = False"
| "isTruthy _ = True"

definition newError :: "string \<Rightarrow> obj" where
  "newError message = Error message"

fun isError :: "obj \<Rightarrow> bool" where
  "isError Nil = False"
| "isError obj = (Type obj = Inr ERROR_OBJ)"

fun unwrapReturnValue :: "obj \<Rightarrow> obj" where
  "unwrapReturnValue (ReturnValue _ v) = v"
| "unwrapReturnValue obj = obj"

section \<open>Prefix expressions\<close>

fun evalBangOperatorExpression :: "obj \<Rightarrow> obj" where
  "evalBangOperatorExpression (Boolean True) = FALSE"
| "evalBangOperatorExpression (Boolean False) = TRUE"
| "evalBangOperatorExpression Null = TRUE"
| "evalBangOperatorExpression _ = FALSE"

definition evalMinusPrefixOperatorExpression :: "obj \<Rightarrow> go_panic + obj" where
  "evalMinusPrefixOperatorExpression right =
     (case Type right of
        Inl p \<Rightarrow> Inl p
      | Inr t \<Rightarrow>
          if t \<noteq> INTEGER_OBJ then Inr (newError (''unknown operator: -'' @ ObjectType_string t))
          else (case right of
                  Integer v \<Rightarrow> Inr (Integer (- v))
                | _ \<Rightarrow> Inl InterfaceConversion))"

definition evalPrefixExpression :: "string \<Rightarrow> obj \<Rightarrow> go_panic + obj" where
  "evalPrefixExpression operator right =
     (if operator = ''!'' then Inr (evalBangOperatorExpression right)
      else if operator = ''-'' then evalMinusPrefixOperatorExpression right
      else (case Type right of
              Inl p \<Rightarrow> Inl p
            | Inr t \<Rightarrow> Inr (newError (''unknown operator: '' @ operator @ ObjectType_string t))))"

section \<open>Infix expressions\<close>

text \<open>The message \<open>fmt.Sprintf("<what>: %s %s %s", l, operator, r)\<close>.\<close>

definition infix_message :: "string \<Rightarrow> ObjectType \<Rightarrow> string \<Rightarrow> ObjectType \<Rightarrow> string" where
  "infix_message what l operator r =
     what @ '': '' @ ObjectType_string l @ '' '' @ operator @ '' '' @ ObjectType_string r"

text \<open>Go's \<open>/\<close> on \<open>int64\<close>: truncated towards zero, wrapping, panicking on a zero divisor.\<close>

definition int64_div :: "64 word \<Rightarrow> 64 word \<Rightarrow> 64 word" where
  "int64_div a b = word_of_int (sint a sdiv sint b)"

definition evalIntegerInfixExpression :: "string \<Rightarrow> obj \<Rightarrow> obj \<Rightarrow> go_panic + obj" where
  "evalIntegerInfixExpression operator left right =
     (case left of Integer leftValue \<Rightarrow> (case right of Integer rightValue \<Rightarrow>
          if operator = ''+'' then Inr (Integer (leftValue + rightValue))
          else if operator = ''-'' then Inr (Integer (leftValue - rightValue))
          else if operator = ''*'' then Inr (Integer (leftValue * rightValue))
          else if operator = ''/'' then
            (if rightValue = 0 then Inl IntegerDivideByZero
             else Inr (Integer (int64_div leftValue rightValue)))
          else if operator = ''<'' then Inr (nativeBoolToBooleanObject (leftValue <s rightValue))
          else if operator = ''>'' then Inr (nativeBoolToBooleanObject (rightValue <s leftValue))
          else if operator = ''=='' then Inr (nativeBoolToBooleanObject (leftValue = rightValue))
          else if operator = ''!='' then Inr (nativeBoolToBooleanObject (leftValue \<noteq> rightValue))
          else Inr (newError (infix_message ''unknown operator'' INTEGER_OBJ operator INTEGER_OBJ))
      | _ \<Rightarrow> Inl InterfaceConversion) | _ \<Rightarrow> Inl InterfaceConversion)"

definition evalStringInfixExpression :: "string \<Rightarrow> obj \<Rightarrow> obj \<Rightarrow> go_panic + obj" where
  "evalStringInfixExpression operator left right =
     (case left of String leftValue \<Rightarrow> (case right of String rightValue \<Rightarrow>
          if operator = ''+'' then Inr (String (leftValue @ rightValue))
          else if operator = ''=='' then Inr (nativeBoolToBooleanObject (leftValue = rightValue))
          else if operator = ''!='' then Inr (nativeBoolToBooleanObject (leftValue \<noteq> rightValue))
          else Inr (newError (infix_message ''unknown operator'' STRING_OBJ operator STRING_OBJ))
      | _ \<Rightarrow> Inl InterfaceConversion) | _ \<Rightarrow> Inl InterfaceConversion)"

text \<open>
  The condition \<open>left.Type() == t && right.Type() == t\<close>: the right operand's type is only
  asked for when the left one is \<open>t\<close>.
\<close>

definition both_of_type :: "ObjectType \<Rightarrow> obj \<Rightarrow> obj \<Rightarrow> go_panic + bool" where
  "both_of_type t left right =
     (case Type left of
        Inl p \<Rightarrow> Inl p
      | Inr lt \<Rightarrow>
          if lt \<noteq> t then Inr False
          else (case Type right of Inl p \<Rightarrow> Inl p | Inr rt \<Rightarrow> Inr (rt = t)))"

definition evalInfixExpression :: "string \<Rightarrow> obj \<Rightarrow> obj \<Rightarrow> go_panic + obj" where
  "evalInfixExpression operator left right =
     (case both_of_type INTEGER_OBJ left right of
        Inl p \<Rightarrow> Inl p
      | Inr True \<Rightarrow> evalIntegerInfixExpression operator left right
      | Inr False \<Rightarrow>
     (case both_of_type STRING_OBJ left right of
        Inl p \<Rightarrow> Inl p
      | Inr True \<Rightarrow> evalStringInfixExpression operator left right
      | Inr False \<Rightarrow>
          if operator = ''=='' then Inr (nativeBoolToBooleanObject (same_object left right))
          else if operator = ''!='' then Inr (nativeBoolToBooleanObject (\<not> same_object left right))
          else (case Type left of
                  Inl p \<Rightarrow> Inl p
                | Inr lt \<Rightarrow>
                    (case Type right of
                       Inl p \<Rightarrow> Inl p
                     | Inr rt \<Rightarrow>
                         if lt \<noteq> rt
                         then Inr (newError (infix_message ''type mismatch'' lt operator rt))
                         else Inr (newError (infix_message ''unknown operator'' lt operator rt))))))"

section \<open>Index expressions\<close>

definition evalArrayIndexExpression :: "obj \<Rightarrow> obj \<Rightarrow> go_panic + obj" where
  "evalArrayIndexExpression array index =
     (case array of Array _ elements \<Rightarrow> (case index of Integer idx \<Rightarrow>
          (let max = int (length elements) - 1 in
           if sint idx < 0 \<or> sint idx > max then Inr NULL
           else Inr (elements ! nat (sint idx)))
      | _ \<Rightarrow> Inl InterfaceConversion) | _ \<Rightarrow> Inl InterfaceConversion)"

definition evalHashIndexExpression :: "obj \<Rightarrow> obj \<Rightarrow> go_panic + obj" where
  "evalHashIndexExpression hash key =
     (case hash of
        Hash _ pairs \<Rightarrow>
          (case HashKey_of key of
             None \<Rightarrow>
               (case Type key of
                  Inl p \<Rightarrow> Inl p
                | Inr t \<Rightarrow> Inr (newError (''unusable as hash key: '' @ ObjectType_string t)))
           | Some hashed \<Rightarrow>
               (case pairs hashed of
                  None \<Rightarrow> Inr NULL
                | Some pair \<Rightarrow> Inr (snd pair)))
      | _ \<Rightarrow> Inl InterfaceConversion)"

definition evalIndexExpression :: "obj \<Rightarrow> obj \<Rightarrow> go_panic + obj" where
  "evalIndexExpression left index =
     (case Type left of
        Inl p \<Rightarrow> Inl p
      | Inr lt \<Rightarrow>
          (case (if lt = ARRAY_OBJ
                 then (case Type index of Inl p \<Rightarrow> Inl p | Inr it \<Rightarrow> Inr (it = INTEGER_OBJ))
                 else Inr False) of
             Inl p \<Rightarrow> Inl p
           | Inr True \<Rightarrow> evalArrayIndexExpression left index
           | Inr False \<Rightarrow>
               if lt = HASH_OBJ then evalHashIndexExpression left index
               else Inr (newError (''index operator not supported: '' @ ObjectType_string lt))))"

section \<open>Outcomes of an evaluation\<close>

text \<open>
  A call of the evaluator returns an object and leaves a state (\<open>Done\<close>), or panics, or
  does not come back within the allowed nesting depth of calls (\<open>OutOfFuel\<close>).
\<close>

datatype 'a result = Done 'a state | Panic go_panic | OutOfFuel

fun bind :: "'a result \<Rightarrow> ('a \<Rightarrow> state \<Rightarrow> 'b result) \<Rightarrow> 'b result" where
  "bind (Done v st) f = f v st"
| "bind (Panic p) f = Panic p"
| "bind OutOfFuel f = OutOfFuel"

fun lift :: "go_panic + 'a \<Rightarrow> state \<Rightarrow> 'a result" where
  "lift (Inl p) st = Panic p"
| "lift (Inr v) st = Done v st"

section \<open>Identifiers\<close>

text \<open>
  The registry \<open>builtins\<close> is not part of the sources: it is a parameter, a map from a
  name to the native function registered under it.
\<close>

type_synonym builtins = "string \<Rightarrow> (obj list \<Rightarrow> obj) option"

definition evalIdentifier :: "builtins \<Rightarrow> nat \<Rightarrow> string \<Rightarrow> addr \<Rightarrow> state \<Rightarrow> obj result" where
  "evalIdentifier B n name env st =
     (case Get n st env name of
        None \<Rightarrow> OutOfFuel
      | Some (val, ok) \<Rightarrow>
          if ok then Done val st
          else (case B name of
                  Some builtin \<Rightarrow> Done (Builtin name) st
                | None \<Rightarrow> Done (newError (''identifier not found: '' @ name)) st))"

section \<open>Function application\<close>

text \<open>
  The loop \<open>for paramIdx, param := range fn.Parameters { env.Set(param.Value, args[paramIdx]) }\<close>;
  \<open>args[paramIdx]\<close> panics when \<open>paramIdx\<close> is not below \<open>len(args)\<close>.
\<close>

fun bindParameters :: "addr \<Rightarrow> string list \<Rightarrow> nat \<Rightarrow> obj list \<Rightarrow> state \<Rightarrow> go_panic + state" where
  "bindParameters env [] paramIdx args st = Inr st"
| "bindParameters env (param # params) paramIdx args st =
     (if paramIdx < length args
      then bindParameters env params (paramIdx + 1) args (Set env param (args ! paramIdx) st)
      else Inl IndexOutOfRange)"

text \<open>\<open>extendFunctionEnv\<close> on the \<open>Parameters\<close> and the \<open>Env\<close> of the function.\<close>

definition extendFunctionEnv ::
  "string list \<Rightarrow> addr \<Rightarrow> obj list \<Rightarrow> state \<Rightarrow> go_panic + (addr \<times> state)" where
  "extendFunctionEnv parameters fenv args st =
     (case NewEnclosedEnvironment fenv st of
        (env, st1) \<Rightarrow>
          (case bindParameters env parameters 0 args st1 of
             Inl p \<Rightarrow> Inl p
           | Inr st2 \<Rightarrow> Inr (env, st2)))"

section \<open>The evaluator\<close>

text \<open>
  \<open>Eval\<close> and the functions it calls are mutually recursive in the source. Here the
  functions that call back into \<open>Eval\<close> take it as their first argument, and \<open>Eval\<close> passes
  itself with one unit less of fuel; the fuel bounds the nesting depth of \<open>Eval\<close> calls and
  \<open>OutOfFuel\<close> stands for an evaluation that does not return within it.
  The variable \<open>result\<close> that the loops of \<open>evalProgram\<close>, \<open>evalStatements\<close> and
  \<open>evalExpressions\<close> update is an argument of these functions, nil (or the empty slice) at
  the call.
\<close>

fun evalProgram ::
  "(node \<Rightarrow> addr \<Rightarrow> state \<Rightarrow> obj result) \<Rightarrow> stmt list \<Rightarrow> obj \<Rightarrow> addr \<Rightarrow> state \<Rightarrow> obj result" where
  "evalProgram Eval [] result env st = Done result st"
| "evalProgram Eval (statement # stmts) result env st =
     bind (Eval (Statement statement) env st) (\<lambda>result st1.
       case result of
         ReturnValue _ v \<Rightarrow> Done v st1
       | Error _ \<Rightarrow> Done result st1
       | _ \<Rightarrow> evalProgram Eval stmts result env st1)"

fun evalStatements ::
  "(node \<Rightarrow> addr \<Rightarrow> state \<Rightarrow> obj result) \<Rightarrow> stmt list \<Rightarrow> obj \<Rightarrow> addr \<Rightarrow> state \<Rightarrow> obj result" where
  "evalStatements Eval [] result env st = Done result st"
| "evalStatements Eval (statement # stmts) result env st =
     bind (Eval (Statement statement) env st) (\<lambda>result st1.
       if (case result of Nil \<Rightarrow> False
           | _ \<Rightarrow> Type result = Inr RETURN_VALUE_OBJ \<or> Type result = Inr ERROR_OBJ)
       then Done result st1
       else evalStatements Eval stmts result env st1)"

definition evalIfExpression ::
  "(node \<Rightarrow> addr \<Rightarrow> state \<Rightarrow> obj result) \<Rightarrow> expr \<Rightarrow> block \<Rightarrow> block option \<Rightarrow> addr \<Rightarrow> state \<Rightarrow>
   obj result" where
  "evalIfExpression Eval cond consequence alternative env st =
     bind (Eval (Expression cond) env st) (\<lambda>condition st1.
       if isError condition then Done condition st1
       else if isTruthy condition then Eval (Block consequence) env st1
       else (case alternative of
               Some alt \<Rightarrow> Eval (Block alt) env st1
             | None \<Rightarrow> Done NULL st1))"

fun evalExpressions ::
  "(node \<Rightarrow> addr \<Rightarrow> state \<Rightarrow> obj result) \<Rightarrow> expr list \<Rightarrow> obj list \<Rightarrow> addr \<Rightarrow> state \<Rightarrow>
   obj list result" where
  "evalExpressions Eval [] result env st = Done result st"
| "evalExpressions Eval (exp # exps) result env st =
     bind (Eval (Expression exp) env st) (\<lambda>eval st1.
       if isError eval then Done [eval] st1
       else evalExpressions Eval exps (result @ [eval]) env st1)"

definition applyFunction ::
  "builtins \<Rightarrow> (node \<Rightarrow> addr \<Rightarrow> state \<Rightarrow> obj result) \<Rightarrow> obj \<Rightarrow> obj list \<Rightarrow> state \<Rightarrow> obj result" where
  "applyFunction B Eval fn args st =
     (case fn of
        Function _ parameters body fenv \<Rightarrow>
          (case extendFunctionEnv parameters fenv args st of
             Inl p \<Rightarrow> Panic p
           | Inr (extendedEnv, st1) \<Rightarrow>
               bind (Eval (Block body) extendedEnv st1) (\<lambda>evaluated st2.
                 Done (unwrapReturnValue evaluated) st2))
      | Builtin name \<Rightarrow>
          (case B name of
             Some f \<Rightarrow> Done (f args) st
           | None \<Rightarrow> Panic NilPointerDereference)
      | _ \<Rightarrow>
          lift (case Type fn of
                  Inl p \<Rightarrow> Inl p
                | Inr t \<Rightarrow> Inr (newError (''not a function: '' @ ObjectType_string t))) st)"

text \<open>
  The loop of \<open>evalHashLiteral\<close> over the pairs, in the order in which it visits them;
  \<open>hid\<close> and \<open>hpairs\<close> are the identity and the \<open>Pairs\<close> of the hash under construction.
\<close>

fun evalHashPairs ::
  "(node \<Rightarrow> addr \<Rightarrow> state \<Rightarrow> obj result) \<Rightarrow> (expr \<times> expr) list \<Rightarrow> nat \<Rightarrow>
   (HashKey \<Rightarrow> (obj \<times> obj) option) \<Rightarrow> addr \<Rightarrow> state \<Rightarrow> obj result" where
  "evalHashPairs Eval [] hid hpairs env st = Done (Hash hid hpairs) st"
| "evalHashPairs Eval ((key, val) # pairs) hid hpairs env st =
     bind (Eval (Expression key) env st) (\<lambda>keyObject st1.
       if isError keyObject then Done keyObject st1
       else (case HashKey_of keyObject of
               None \<Rightarrow>
                 lift (case Type keyObject of
                         Inl p \<Rightarrow> Inl p
                       | Inr t \<Rightarrow>
                           Inr (newError (''unusable as hash key: '' @ ObjectType_string t))) st1
             | Some hashedKey \<Rightarrow>
                 bind (Eval (Expression val) env st1) (\<lambda>valueObject st2.
                   if isError valueObject then Done valueObject st2
                   else evalHashPairs Eval pairs hid
                          (hpairs(hashedKey \<mapsto> (keyObject, valueObject))) env st2)))"

definition evalHashLiteral ::
  "(node \<Rightarrow> addr \<Rightarrow> state \<Rightarrow> obj result) \<Rightarrow> (expr \<times> expr) list \<Rightarrow> addr \<Rightarrow> state \<Rightarrow> obj result" where
  "evalHashLiteral Eval pairs env st =
     evalHashPairs Eval pairs (nextId st) Map.empty env (st\<lparr>nextId := nextId st + 1\<rparr>)"

fun Eval :: "builtins \<Rightarrow> nat \<Rightarrow> node \<Rightarrow> addr \<Rightarrow> state \<Rightarrow> obj result" where
  "Eval B 0 node env st = OutOfFuel"
| "Eval B (Suc n) (Program stmts) env st = evalProgram (Eval B n) stmts Nil env st"
| "Eval B (Suc n) (Statement (ExpressionStatement e)) env st = Eval B n (Expression e) env st"
| "Eval B (Suc n) (Block (BlockStatement stmts)) env st = evalStatements (Eval B n) stmts Nil env st"
| "Eval B (Suc n) (Statement (ReturnStatement e)) env st =
     bind (Eval B n (Expression e) env st) (\<lambda>returnValueEvaluated st1.
       if isError returnValueEvaluated then Done returnValueEvaluated st1
       else Done (ReturnValue (nextId st1) returnValueEvaluated)
                 (st1\<lparr>nextId := nextId st1 + 1\<rparr>))"
| "Eval B (Suc n) (Statement (LetStatement name e)) env st =
     bind (Eval B n (Expression e) env st) (\<lambda>evaluated st1.
       if isError evaluated then Done evaluated st1
       else Done Nil (Set env name evaluated st1))"
| "Eval B (Suc n) (Expression (IntegerLiteral v)) env st = Done (Integer v) st"
| "Eval B (Suc n) (Expression (BooleanLiteral v)) env st = Done (nativeBoolToBooleanObject v) st"
| "Eval B (Suc n) (Expression (StringLiteral v)) env st = Done (String v) st"
| "Eval B (Suc n) (Expression (PrefixExpression operator right)) env st =
     bind (Eval B n (Expression right) env st) (\<lambda>rightEvaluated st1.
       if isError rightEvaluated then Done rightEvaluated st1
       else lift (evalPrefixExpression operator rightEvaluated) st1)"
| "Eval B (Suc n) (Expression (InfixExpression left operator right)) env st =
     bind (Eval B n (Expression left) env st) (\<lambda>leftEvaluated st1.
       if isError leftEvaluated then Done leftEvaluated st1
       else bind (Eval B n (Expression right) env st1) (\<lambda>rightEvaluated st2.
         if isError rightEvaluated then Done rightEvaluated st2
         else lift (evalInfixExpression operator leftEvaluated rightEvaluated) st2))"
| "Eval B (Suc n) (Expression (IfExpression condition consequence alternative)) env st =
     evalIfExpression (Eval B n) condition consequence alternative env st"
| "Eval B (Suc n) (Expression (Identifier name)) env st = evalIdentifier B n name env st"
| "Eval B (Suc n) (Expression (FunctionLiteral params body)) env st =
     Done (Function (nextId st) params body env) (st\<lparr>nextId := nextId st + 1\<rparr>)"
| "Eval B (Suc n) (Expression (CallExpression function arguments)) env st =
     bind (Eval B n (Expression function) env st) (\<lambda>function st1.
       if isError function then Done function st1
       else bind (evalExpressions (Eval B n) arguments [] env st1) (\<lambda>args st2.
         if length args = 1 \<and> isError (args ! 0) then Done (args ! 0) st2
         else applyFunction B (Eval B n) function args st2))"
| "Eval B (Suc n) (Expression (ArrayLiteral elems)) env st =
     bind (evalExpressions (Eval B n) elems [] env st) (\<lambda>elements st1.
       if length elements = 1 \<and> isError (elements ! 0) then Done (elements ! 0) st1
       else Done (Array (nextId st1) elements) (st1\<lparr>nextId := nextId st1 + 1\<rparr>))"
| "Eval B (Suc n) (Expression (IndexExpression left index)) env st =
     bind (Eval B n (Expression left) env st) (\<lambda>left st1.
       if isError left then Done left st1
       else bind (Eval B n (Expression index) env st1) (\<lambda>index st2.
         if isError index then Done index st2
         else lift (evalIndexExpression left index) st2))"
| "Eval B (Suc n) (Expression (HashLiteral pairs)) env st = evalHashLiteral (Eval B n) pairs env st"


section \<open>Notions used to state the properties\<close>

text \<open>The state a host starts from: no environment allocated yet.\<close>

definition empty_state :: state where
  "empty_state =
     \<lparr>envs = (\<lambda>_. \<lparr>store = Map.empty, outer = None\<rparr>), nextEnv = 0, nextId = 0\<rparr>"

text \<open>The state after the host has created the top-level environment, at address 0.\<close>

definition host_state :: state where
  "host_state = snd (NewEnvironment empty_state)"

subsection \<open>Scope chains\<close>

text \<open>
  The chain of scopes that starts at an environment, innermost first, when it ends within
  \<open>n\<close> environments; \<open>None\<close> when it does not.
\<close>

fun scopes :: "nat \<Rightarrow> state \<Rightarrow> addr \<Rightarrow> addr list option" where
  "scopes 0 st e = None"
| "scopes (Suc n) st e =
     (case outer (envs st e) of
        None \<Rightarrow> Some [e]
      | Some out \<Rightarrow> map_option ((#) e) (scopes n st out))"

text \<open>The binding of a name in the nearest scope of a chain that has one.\<close>

fun nearest_binding :: "state \<Rightarrow> addr list \<Rightarrow> string \<Rightarrow> obj option" where
  "nearest_binding st [] key = None"
| "nearest_binding st (e # es) key =
     (case store (envs st e) key of
        Some val \<Rightarrow> Some val
      | None \<Rightarrow> nearest_binding st es key)"

text \<open>An inner scope (address 1) enclosed by the top-level one, and a registry of two builtins.\<close>

definition two_scopes :: state where
  "two_scopes =
     Set 1 ''len'' (Integer 3)
       (Set 0 ''x'' (Integer 1)
         (Set 1 ''x'' (Integer 2) (snd (NewEnclosedEnvironment 0 host_state))))"

definition some_builtins :: builtins where
  "some_builtins = [''len'' \<mapsto> (\<lambda>args. Null), ''first'' \<mapsto> (\<lambda>args. Null)]"

subsection \<open>Signals and statement sequences\<close>

text \<open>The two signal kinds: a return value in flight and an error.\<close>

fun is_signal :: "obj \<Rightarrow> bool" where
  "is_signal (ReturnValue _ _) = True"
| "is_signal (Error _) = True"
| "is_signal _ = False"

text \<open>
  Evaluating the statements of a list in order when none of them yields a signal: the
  result of the last one (the given \<open>result\<close> for the empty list) and the state reached;
  \<open>None\<close> when a statement yields a signal, panics or does not return.
\<close>

fun runs_plain ::
  "(node \<Rightarrow> addr \<Rightarrow> state \<Rightarrow> obj result) \<Rightarrow> stmt list \<Rightarrow> obj \<Rightarrow> addr \<Rightarrow> state \<Rightarrow>
   (obj \<times> state) option" where
  "runs_plain ev [] result env st = Some (result, st)"
| "runs_plain ev (statement # stmts) result env st =
     (case ev (Statement statement) env st of
        Done r st1 \<Rightarrow> if is_signal r then None else runs_plain ev stmts r env st1
      | _ \<Rightarrow> None)"

text \<open>
  A block put \<open>k\<close> levels deep: at each level it is the consequence of an \<open>if (true)\<close>
  that is the first statement of the enclosing block, followed by the statements \<open>post\<close>.
\<close>

fun nested :: "nat \<Rightarrow> block \<Rightarrow> stmt list \<Rightarrow> block" where
  "nested 0 b post = b"
| "nested (Suc k) b post =
     BlockStatement
       (ExpressionStatement (IfExpression (BooleanLiteral True) (nested k b post) None) # post)"

text \<open>
  The function \<open>fn() { if (true) { if (true) { return 10; } 1 } 2 }\<close>, whose return is two
  blocks deep, and the program \<open>let a = 1; return 5; 7\<close>.
\<close>

definition deep_return :: block where
  "deep_return =
     nested 2 (BlockStatement [ReturnStatement (IntegerLiteral 10)])
       [ExpressionStatement (IntegerLiteral 1)]"

definition early_return_program :: "stmt list" where
  "early_return_program =
     [LetStatement ''a'' (IntegerLiteral 1), ReturnStatement (IntegerLiteral 5),
      ExpressionStatement (IntegerLiteral 7)]"

subsection \<open>Programs with closures\<close>

text \<open>
  The statements \<open>let adder = fn(x) { fn(y) { x + y } }; let add5 = adder(5);\<close>, the call
  \<open>add5(k)\<close>, and the statements \<open>let f = fn() { x }; let x = 5; f()\<close>, in which \<open>x\<close> is
  bound after the function literal has been evaluated.
\<close>

definition adder_statements :: "stmt list" where
  "adder_statements =
    [LetStatement ''adder'' (FunctionLiteral [''x''] (BlockStatement
        [ExpressionStatement (FunctionLiteral [''y''] (BlockStatement
           [ExpressionStatement
              (InfixExpression (Identifier ''x'') ''+'' (Identifier ''y''))]))])),
     LetStatement ''add5'' (CallExpression (Identifier ''adder'') [IntegerLiteral 5])]"

definition call_add5 :: "64 word \<Rightarrow> stmt" where
  "call_add5 k = ExpressionStatement (CallExpression (Identifier ''add5'') [IntegerLiteral k])"

definition late_binding_statements :: "stmt list" where
  "late_binding_statements =
    [LetStatement ''f'' (FunctionLiteral []
        (BlockStatement [ExpressionStatement (Identifier ''x'')])),
     LetStatement ''x'' (IntegerLiteral 5),
     ExpressionStatement (CallExpression (Identifier ''f'') [])]"

text \<open>
  The statements \<open>let g = fn(x) { add5(1) }; g(100)\<close>: the call of \<open>add5\<close> is made from a
  scope that binds \<open>x\<close> to 100.
\<close>

definition call_from_scope_with_x :: "stmt list" where
  "call_from_scope_with_x =
    [LetStatement ''g'' (FunctionLiteral [''x'']
        (BlockStatement [call_add5 1])),
     ExpressionStatement (CallExpression (Identifier ''g'') [IntegerLiteral 100])]"

text \<open>The object and nothing else of an outcome.\<close>

fun outcome_value :: "obj result \<Rightarrow> obj option" where
  "outcome_value (Done v st) = Some v"
| "outcome_value _ = None"

subsection \<open>Expression sequences\<close>

text \<open>
  Evaluating the expressions of a list from left to right when none of them yields an
  error: the objects they yield, appended in order to \<open>result\<close>, and the state reached;
  \<open>None\<close> when an expression yields an error, panics or does not return.
\<close>

fun exprs_plain ::
  "(node \<Rightarrow> addr \<Rightarrow> state \<Rightarrow> obj result) \<Rightarrow> expr list \<Rightarrow> obj list \<Rightarrow> addr \<Rightarrow> state \<Rightarrow>
   (obj list \<times> state) option" where
  "exprs_plain ev [] result env st = Some (result, st)"
| "exprs_plain ev (exp # exps) result env st =
     (case ev (Expression exp) env st of
        Done v st1 \<Rightarrow> if isError v then None else exprs_plain ev exps (result @ [v]) env st1
      | _ \<Rightarrow> None)"

text \<open>
  The array literals \<open>[1, fn(){}(), 3]\<close>, whose middle element calls a function with an
  empty body, and \<open>[1, 5 + true, 3]\<close>.
\<close>

definition array_with_empty_call :: expr where
  "array_with_empty_call =
     ArrayLiteral [IntegerLiteral 1,
                   CallExpression (FunctionLiteral [] (BlockStatement [])) [],
                   IntegerLiteral 3]"

definition array_with_mismatch :: expr where
  "array_with_mismatch =
     ArrayLiteral [IntegerLiteral 1,
                   InfixExpression (IntegerLiteral 5) ''+'' (BooleanLiteral True),
                   IntegerLiteral 3]"

subsection \<open>Hash literals\<close>

text \<open>
  Evaluating the pairs of a list in order, for each the key and then the value, when
  every key yields an object that derives a hash key and no key or value yields an error:
  the pairs of objects (key, value) in order and the state reached; \<open>None\<close> otherwise.
\<close>

fun pairs_plain ::
  "(node \<Rightarrow> addr \<Rightarrow> state \<Rightarrow> obj result) \<Rightarrow> (expr \<times> expr) list \<Rightarrow> addr \<Rightarrow> state \<Rightarrow>
   ((obj \<times> obj) list \<times> state) option" where
  "pairs_plain ev [] env st = Some ([], st)"
| "pairs_plain ev ((key, val) # pairs) env st =
     (case ev (Expression key) env st of
        Done keyObject st1 \<Rightarrow>
          if isError keyObject \<or> HashKey_of keyObject = None then None
          else (case ev (Expression val) env st1 of
                  Done valueObject st2 \<Rightarrow>
                    if isError valueObject then None
                    else (case pairs_plain ev pairs env st2 of
                            Some (kvs, st3) \<Rightarrow> Some ((keyObject, valueObject) # kvs, st3)
                          | None \<Rightarrow> None)
                | _ \<Rightarrow> None)
      | _ \<Rightarrow> None)"

text \<open>
  What a hash holds under a hash key once the pairs of a list have been stored in order:
  the last pair whose key derives that hash key.
\<close>

definition stored_under :: "(obj \<times> obj) list \<Rightarrow> HashKey \<Rightarrow> (obj \<times> obj) option" where
  "stored_under kvs hk =
     (case filter (\<lambda>p. HashKey_of (fst p) = Some hk) kvs of
        [] \<Rightarrow> None
      | p # ps \<Rightarrow> Some (last (p # ps)))"

text \<open>
  The two pairs of the literal \<open>{1: 10, 1: 20}\<close> as written, and the expression that
  indexes a hash literal of given pairs by 1.
\<close>

definition duplicate_key_pairs :: "(expr \<times> expr) list" where
  "duplicate_key_pairs =
     [(IntegerLiteral 1, IntegerLiteral 10), (IntegerLiteral 1, IntegerLiteral 20)]"

definition index_by_1 :: "(expr \<times> expr) list \<Rightarrow> expr" where
  "index_by_1 pairs = IndexExpression (HashLiteral pairs) (IntegerLiteral 1)"

(*DEFS-END*)

section \<open>Truthiness and the bang operator\<close>

lemma isTruthy_Boolean: "isTruthy (Boolean b) = b"
  by (cases b) simp_all

lemma bang_Boolean: "evalBangOperatorExpression (Boolean b) = Boolean (\<not> b)"
  by (cases b) simp_all

lemma isTruthy_iff: "isTruthy x = (case x of Null \<Rightarrow> False | Boolean b \<Rightarrow> b | _ \<Rightarrow> True)"
  by (cases x) (simp_all add: isTruthy_Boolean)

lemma bang_eq: "evalBangOperatorExpression x = Boolean (\<not> isTruthy x)"
  by (cases x) (simp_all add: isTruthy_Boolean bang_Boolean)

lemma prefix_bang: "evalPrefixExpression ''!'' x = Inr (Boolean (\<not> isTruthy x))"
  by (simp add: evalPrefixExpression_def bang_eq)

text \<open>
  C9. The \<open>NULL\<close> and the \<open>FALSE\<close> singleton are falsy and every other object is truthy,
  Integer 0 and all kinds other than Boolean included. Prefix \<open>!\<close> applied to any object
  (also nil or an error) never panics and never yields an error: it yields \<open>TRUE\<close> for a
  falsy operand and \<open>FALSE\<close> for a truthy one. In \<open>Eval\<close>, an operand that evaluates to an
  error is returned as it is, and any other operand is negated this way; so \<open>!!5\<close>
  evaluates to the singleton \<open>TRUE\<close>, not to Integer 5.
\<close>

theorem bang_normalizes_truthiness:
  "isTruthy NULL = False \<and> isTruthy FALSE = False \<and> isTruthy TRUE = True
   \<and> isTruthy (Integer 0) = True
   \<and> (\<forall>x. isTruthy x = (case x of Null \<Rightarrow> False | Boolean b \<Rightarrow> b | _ \<Rightarrow> True))
   \<and> (\<forall>x. evalPrefixExpression ''!'' x = Inr (Boolean (\<not> isTruthy x)))
   \<and> (\<forall>B n e env st.
         Eval B (Suc n) (Expression (PrefixExpression ''!'' e)) env st =
         bind (Eval B n (Expression e) env st) (\<lambda>v st1.
           if isError v then Done v st1 else Done (Boolean (\<not> isTruthy v)) st1))
   \<and> (\<forall>B env st.
         Eval B 3 (Expression (PrefixExpression ''!'' (PrefixExpression ''!'' (IntegerLiteral 5))))
           env st = Done TRUE st)"
  by (simp add: isTruthy_iff [symmetric] prefix_bang numeral_eq_Suc cong: if_cong)

section \<open>Infix dispatch\<close>

lemma nativeBool_eq: "nativeBoolToBooleanObject b = Boolean b"
  by (simp add: nativeBoolToBooleanObject_def)

lemma infix_Integer:
  "evalInfixExpression operator (Integer a) (Integer b) =
     (if operator = ''+'' then Inr (Integer (a + b))
      else if operator = ''-'' then Inr (Integer (a - b))
      else if operator = ''*'' then Inr (Integer (a * b))
      else if operator = ''/'' then
        (if b = 0 then Inl IntegerDivideByZero
         else Inr (Integer (word_of_int (sint a sdiv sint b))))
      else if operator = ''<'' then Inr (Boolean (sint a < sint b))
      else if operator = ''>'' then Inr (Boolean (sint a > sint b))
      else if operator = ''=='' then Inr (Boolean (a = b))
      else if operator = ''!='' then Inr (Boolean (a \<noteq> b))
      else Inr (Error (''unknown operator: INTEGER '' @ operator @ '' INTEGER'')))"
  by (simp add: evalInfixExpression_def both_of_type_def evalIntegerInfixExpression_def
      nativeBool_eq int64_div_def word_sless_alt newError_def infix_message_def)

lemma infix_String:
  "evalInfixExpression operator (String a) (String b) =
     (if operator = ''+'' then Inr (String (a @ b))
      else if operator = ''=='' then Inr (Boolean (a = b))
      else if operator = ''!='' then Inr (Boolean (a \<noteq> b))
      else Inr (Error (''unknown operator: STRING '' @ operator @ '' STRING'')))"
  by (simp add: evalInfixExpression_def both_of_type_def evalStringInfixExpression_def
      nativeBool_eq newError_def infix_message_def)

lemma infix_other:
  assumes "Type left = Inr lt" and "Type right = Inr rt"
    and "\<not> (lt = INTEGER_OBJ \<and> rt = INTEGER_OBJ)" and "\<not> (lt = STRING_OBJ \<and> rt = STRING_OBJ)"
  shows "evalInfixExpression operator left right =
     (if operator = ''=='' then Inr (Boolean (same_object left right))
      else if operator = ''!='' then Inr (Boolean (\<not> same_object left right))
      else if lt \<noteq> rt
      then Inr (Error (''type mismatch: '' @ ObjectType_string lt @ '' '' @ operator @ '' ''
                        @ ObjectType_string rt))
      else Inr (Error (''unknown operator: '' @ ObjectType_string lt @ '' '' @ operator @ '' ''
                        @ ObjectType_string rt)))"
  using assms
  by (auto simp add: evalInfixExpression_def both_of_type_def nativeBool_eq newError_def
      infix_message_def)

lemma same_object_kinds:
  assumes "Type left = Inr lt" and "Type right = Inr rt" and "lt \<noteq> rt"
  shows "\<not> same_object left right"
  using assms by (cases left; cases right) (auto simp add: same_object_def)

text \<open>
  C4. Infix evaluation on two operands that are objects (not nil) and not errors, of kinds
  \<open>lt\<close> and \<open>rt\<close>. Two Integers: arithmetic and comparison by value (64-bit, \<open>/\<close>
  truncating and panicking on a zero divisor), any other operator is the error
  "unknown operator: INTEGER op INTEGER". Two Strings: \<open>+\<close> concatenates, \<open>==\<close> and \<open>!=\<close>
  compare the contents, any other operator is "unknown operator: STRING op STRING".
  Every other combination of kinds: \<open>==\<close> and \<open>!=\<close> compare the two objects by identity
  (the Boolean and Null singletons by their value) and never yield an error; when the two
  kinds differ they yield \<open>FALSE\<close> and \<open>TRUE\<close>. Any other operator yields the error
  "type mismatch: L op R" when the kinds differ and "unknown operator: L op R" when they
  are the same.
\<close>

theorem infix_dispatch_and_faults:
  assumes "Type left = Inr lt" and "Type right = Inr rt"
    and "lt \<noteq> ERROR_OBJ" and "rt \<noteq> ERROR_OBJ"
  shows
   "(\<forall>a b. left = Integer a \<and> right = Integer b \<longrightarrow>
       evalInfixExpression operator left right =
         (if operator = ''+'' then Inr (Integer (a + b))
          else if operator = ''-'' then Inr (Integer (a - b))
          else if operator = ''*'' then Inr (Integer (a * b))
          else if operator = ''/'' then
            (if b = 0 then Inl IntegerDivideByZero
             else Inr (Integer (word_of_int (sint a sdiv sint b))))
          else if operator = ''<'' then Inr (Boolean (sint a < sint b))
          else if operator = ''>'' then Inr (Boolean (sint a > sint b))
          else if operator = ''=='' then Inr (Boolean (a = b))
          else if operator = ''!='' then Inr (Boolean (a \<noteq> b))
          else Inr (Error (''unknown operator: INTEGER '' @ operator @ '' INTEGER''))))
    \<and> (\<forall>a b. left = String a \<and> right = String b \<longrightarrow>
       evalInfixExpression operator left right =
         (if operator = ''+'' then Inr (String (a @ b))
          else if operator = ''=='' then Inr (Boolean (a = b))
          else if operator = ''!='' then Inr (Boolean (a \<noteq> b))
          else Inr (Error (''unknown operator: STRING '' @ operator @ '' STRING''))))
    \<and> (\<not> (lt = INTEGER_OBJ \<and> rt = INTEGER_OBJ) \<and> \<not> (lt = STRING_OBJ \<and> rt = STRING_OBJ) \<longrightarrow>
       evalInfixExpression operator left right =
         (if operator = ''=='' then Inr (Boolean (same_object left right))
          else if operator = ''!='' then Inr (Boolean (\<not> same_object left right))
          else if lt \<noteq> rt
          then Inr (Error (''type mismatch: '' @ ObjectType_string lt @ '' '' @ operator @ '' ''
                            @ ObjectType_string rt))
          else Inr (Error (''unknown operator: '' @ ObjectType_string lt @ '' '' @ operator
                            @ '' '' @ ObjectType_string rt))))
    \<and> (lt \<noteq> rt \<longrightarrow>
         evalInfixExpression operator left right =
           (if operator = ''=='' then Inr FALSE
            else if operator = ''!='' then Inr TRUE
            else Inr (Error (''type mismatch: '' @ ObjectType_string lt @ '' '' @ operator
                              @ '' '' @ ObjectType_string rt))))
    \<and> (\<forall>a b. same_object (Boolean a) (Boolean b) = (a = b)) \<and> same_object Null Null"
proof (intro conjI allI impI)
  fix a b assume "left = Integer a \<and> right = Integer b"
  then show "evalInfixExpression operator left right =
         (if operator = ''+'' then Inr (Integer (a + b))
          else if operator = ''-'' then Inr (Integer (a - b))
          else if operator = ''*'' then Inr (Integer (a * b))
          else if operator = ''/'' then
            (if b = 0 then Inl IntegerDivideByZero
             else Inr (Integer (word_of_int (sint a sdiv sint b))))
          else if operator = ''<'' then Inr (Boolean (sint a < sint b))
          else if operator = ''>'' then Inr (Boolean (sint a > sint b))
          else if operator = ''=='' then Inr (Boolean (a = b))
          else if operator = ''!='' then Inr (Boolean (a \<noteq> b))
          else Inr (Error (''unknown operator: INTEGER '' @ operator @ '' INTEGER'')))"
    by (simp only: infix_Integer)
next
  fix a b assume "left = String a \<and> right = String b"
  then show "evalInfixExpression operator left right =
         (if operator = ''+'' then Inr (String (a @ b))
          else if operator = ''=='' then Inr (Boolean (a = b))
          else if operator = ''!='' then Inr (Boolean (a \<noteq> b))
          else Inr (Error (''unknown operator: STRING '' @ operator @ '' STRING'')))"
    by (simp only: infix_String)
next
  assume "\<not> (lt = INTEGER_OBJ \<and> rt = INTEGER_OBJ) \<and> \<not> (lt = STRING_OBJ \<and> rt = STRING_OBJ)"
  then show "evalInfixExpression operator left right =
         (if operator = ''=='' then Inr (Boolean (same_object left right))
          else if operator = ''!='' then Inr (Boolean (\<not> same_object left right))
          else if lt \<noteq> rt
          then Inr (Error (''type mismatch: '' @ ObjectType_string lt @ '' '' @ operator @ '' ''
                            @ ObjectType_string rt))
          else Inr (Error (''unknown operator: '' @ ObjectType_string lt @ '' '' @ operator
                            @ '' '' @ ObjectType_string rt)))"
    using infix_other [OF assms(1,2)] by blast
next
  assume ne: "lt \<noteq> rt"
  then have "\<not> (lt = INTEGER_OBJ \<and> rt = INTEGER_OBJ)" "\<not> (lt = STRING_OBJ \<and> rt = STRING_OBJ)"
    by auto
  from infix_other [OF assms(1,2) this] same_object_kinds [OF assms(1,2) ne] ne
  show "evalInfixExpression operator left right =
           (if operator = ''=='' then Inr FALSE
            else if operator = ''!='' then Inr TRUE
            else Inr (Error (''type mismatch: '' @ ObjectType_string lt @ '' '' @ operator
                              @ '' '' @ ObjectType_string rt)))"
    by simp
next
  fix a b show "same_object (Boolean a) (Boolean b) = (a = b)"
    by (simp add: same_object_def)
next
  show "same_object Null Null" by (simp add: same_object_def)
qed

theorem infix_dispatch_and_faults_witness:
  "evalInfixExpression ''=='' (Integer 1) (String ''1'') = Inr FALSE
   \<and> evalInfixExpression ''!='' (Integer 1) (String ''1'') = Inr TRUE
   \<and> evalInfixExpression ''+'' (Integer 1) (String ''1'') = Inr (Error ''type mismatch: INTEGER + STRING'')
   \<and> evalInfixExpression ''-'' (String ''a'') (String ''b'') = Inr (Error ''unknown operator: STRING - STRING'')
   \<and> evalInfixExpression ''+'' TRUE FALSE = Inr (Error ''unknown operator: BOOLEAN + BOOLEAN'')
   \<and> evalInfixExpression ''=='' TRUE TRUE = Inr TRUE"
  using infix_dispatch_and_faults [of "Integer 1" INTEGER_OBJ "String ''1''" STRING_OBJ "''==''"]
    infix_dispatch_and_faults [of "Integer 1" INTEGER_OBJ "String ''1''" STRING_OBJ "''!=''"]
    infix_dispatch_and_faults [of "Integer 1" INTEGER_OBJ "String ''1''" STRING_OBJ "''+''"]
    infix_dispatch_and_faults [of "String ''a''" STRING_OBJ "String ''b''" STRING_OBJ "''-''"]
    infix_dispatch_and_faults [of TRUE BOOLEAN_OBJ FALSE BOOLEAN_OBJ "''+''"]
    infix_dispatch_and_faults [of TRUE BOOLEAN_OBJ TRUE BOOLEAN_OBJ "''==''"]
  by (simp add: same_object_def)

section \<open>Index expressions: the cases\<close>

lemma index_Array_Integer:
  "evalIndexExpression (Array i xs) (Integer idx) =
     Inr (if 0 \<le> sint idx \<and> sint idx \<le> int (length xs) - 1 then xs ! nat (sint idx) else NULL)"
  by (auto simp add: evalIndexExpression_def evalArrayIndexExpression_def Let_def)

lemma index_Hash:
  "evalIndexExpression (Hash i pairs) index =
     (case HashKey_of index of
        Some k \<Rightarrow> (case pairs k of None \<Rightarrow> Inr NULL | Some pair \<Rightarrow> Inr (snd pair))
      | None \<Rightarrow>
          (case Type index of
             Inl p \<Rightarrow> Inl p
           | Inr t \<Rightarrow> Inr (Error (''unusable as hash key: '' @ ObjectType_string t))))"
  by (simp add: evalIndexExpression_def evalHashIndexExpression_def newError_def
      split: option.splits sum.splits)

lemma index_other:
  assumes "Type left = Inr lt" and "lt \<noteq> ARRAY_OBJ" and "lt \<noteq> HASH_OBJ"
  shows "evalIndexExpression left index =
     Inr (Error (''index operator not supported: '' @ ObjectType_string lt))"
  using assms by (simp add: evalIndexExpression_def newError_def)

lemma index_Array_other:
  assumes "Type index = Inr it" and "it \<noteq> INTEGER_OBJ"
  shows "evalIndexExpression (Array i xs) index =
     Inr (Error ''index operator not supported: ARRAY'')"
  using assms by (simp add: evalIndexExpression_def newError_def)

lemma HashKey_of_None_iff:
  "Type index = Inr t \<Longrightarrow>
   (HashKey_of index = None) = (t \<noteq> INTEGER_OBJ \<and> t \<noteq> BOOLEAN_OBJ \<and> t \<noteq> STRING_OBJ)"
  by (cases index) auto

text \<open>
  C7. Indexing \<open>left[index]\<close> on two operands that are objects (not nil) and not errors.
  An Array indexed by an Integer returns the element at that position exactly when
  \<open>0 \<le> index \<le> len - 1\<close> and \<open>NULL\<close> otherwise (negative indexes included), never an error.
  A Hash indexed by anything: an index that derives no hash key (any kind but Integer,
  Boolean, String) yields the error "unusable as hash key: T", an absent key yields
  \<open>NULL\<close>, a present key yields the stored value. A left operand of any other kind yields
  the error "index operator not supported: T".
\<close>

theorem index_expression_semantics:
  assumes "Type left = Inr lt" and "Type index = Inr it"
    and "lt \<noteq> ERROR_OBJ" and "it \<noteq> ERROR_OBJ"
  shows
   "(\<forall>i xs idx. left = Array i xs \<and> index = Integer idx \<longrightarrow>
       evalIndexExpression left index =
         Inr (if 0 \<le> sint idx \<and> sint idx \<le> int (length xs) - 1
              then xs ! nat (sint idx) else NULL))
    \<and> (\<forall>i pairs. left = Hash i pairs \<longrightarrow>
         (HashKey_of index = None) = (it \<noteq> INTEGER_OBJ \<and> it \<noteq> BOOLEAN_OBJ \<and> it \<noteq> STRING_OBJ)
         \<and> evalIndexExpression left index =
           (case HashKey_of index of
              None \<Rightarrow> Inr (Error (''unusable as hash key: '' @ ObjectType_string it))
            | Some k \<Rightarrow>
                (case pairs k of
                   None \<Rightarrow> Inr NULL
                 | Some pair \<Rightarrow> Inr (snd pair))))
    \<and> (lt \<noteq> ARRAY_OBJ \<and> lt \<noteq> HASH_OBJ \<longrightarrow>
         evalIndexExpression left index =
           Inr (Error (''index operator not supported: '' @ ObjectType_string lt)))"
proof (intro conjI allI impI)
  fix i xs idx assume "left = Array i xs \<and> index = Integer idx"
  then show "evalIndexExpression left index =
         Inr (if 0 \<le> sint idx \<and> sint idx \<le> int (length xs) - 1
              then xs ! nat (sint idx) else NULL)"
    by (simp only: index_Array_Integer)
next
  fix i pairs assume "left = Hash i pairs"
  show "(HashKey_of index = None) = (it \<noteq> INTEGER_OBJ \<and> it \<noteq> BOOLEAN_OBJ \<and> it \<noteq> STRING_OBJ)"
    by (rule HashKey_of_None_iff [OF assms(2)])
next
  fix i pairs assume "left = Hash i pairs"
  then show "evalIndexExpression left index =
           (case HashKey_of index of
              None \<Rightarrow> Inr (Error (''unusable as hash key: '' @ ObjectType_string it))
            | Some k \<Rightarrow>
                (case pairs k of
                   None \<Rightarrow> Inr NULL
                 | Some pair \<Rightarrow> Inr (snd pair)))"
    using assms(2) by (simp add: index_Hash split: option.splits)
next
  assume "lt \<noteq> ARRAY_OBJ \<and> lt \<noteq> HASH_OBJ"
  then show "evalIndexExpression left index =
           Inr (Error (''index operator not supported: '' @ ObjectType_string lt))"
    using index_other [OF assms(1)] by blast
qed

theorem index_expression_semantics_witness:
  "evalIndexExpression (Array 0 [Integer 1, Integer 2, Integer 3]) (Integer 2) = Inr (Integer 3)
   \<and> evalIndexExpression (Array 0 [Integer 1, Integer 2, Integer 3]) (Integer 5) = Inr NULL
   \<and> evalIndexExpression (Array 0 [Integer 1, Integer 2, Integer 3]) (Integer (- 1)) = Inr NULL
   \<and> evalIndexExpression (Hash 0 [StringKey ''a'' \<mapsto> (String ''a'', Integer 1)]) (String ''a'')
       = Inr (Integer 1)
   \<and> evalIndexExpression (Hash 0 [StringKey ''a'' \<mapsto> (String ''a'', Integer 1)]) (String ''b'')
       = Inr NULL
   \<and> evalIndexExpression (Hash 0 [StringKey ''a'' \<mapsto> (String ''a'', Integer 1)]) (Array 1 [])
       = Inr (Error ''unusable as hash key: ARRAY'')
   \<and> evalIndexExpression (Integer 7) (Integer 0)
       = Inr (Error ''index operator not supported: INTEGER'')"
  using
    index_expression_semantics [of "Array 0 [Integer 1, Integer 2, Integer 3]" ARRAY_OBJ
      "Integer 2" INTEGER_OBJ]
    index_expression_semantics [of "Array 0 [Integer 1, Integer 2, Integer 3]" ARRAY_OBJ
      "Integer 5" INTEGER_OBJ]
    index_expression_semantics [of "Array 0 [Integer 1, Integer 2, Integer 3]" ARRAY_OBJ
      "Integer (- 1)" INTEGER_OBJ]
    index_expression_semantics [of "Hash 0 [StringKey ''a'' \<mapsto> (String ''a'', Integer 1)]" HASH_OBJ
      "String ''a''" STRING_OBJ]
    index_expression_semantics [of "Hash 0 [StringKey ''a'' \<mapsto> (String ''a'', Integer 1)]" HASH_OBJ
      "String ''b''" STRING_OBJ]
    index_expression_semantics [of "Hash 0 [StringKey ''a'' \<mapsto> (String ''a'', Integer 1)]" HASH_OBJ
      "Array 1 []" ARRAY_OBJ]
    index_expression_semantics [of "Integer 7" INTEGER_OBJ "Integer 0" INTEGER_OBJ]
  by simp

section \<open>Binding parameters to arguments\<close>

lemma bindParameters_short:
  "length args < paramIdx + length params \<Longrightarrow> paramIdx \<le> length args \<Longrightarrow>
   bindParameters env params paramIdx args st = Inl IndexOutOfRange"
  by (induction params arbitrary: paramIdx st) auto

lemma bindParameters_enough:
  "paramIdx + length params \<le> length args \<Longrightarrow>
   bindParameters env params paramIdx args st =
   Inr (st\<lparr>envs := (envs st)(env := (envs st env)
          \<lparr>store := store (envs st env) ++ map_of (rev (zip params (drop paramIdx args)))\<rparr>)\<rparr>)"
proof (induction params arbitrary: paramIdx st)
  case Nil
  then show ?case by simp
next
  case (Cons p ps)
  from Cons.prems have lt: "paramIdx < length args" by simp
  from Cons.prems have le: "(paramIdx + 1) + length ps \<le> length args" by simp
  have d: "drop paramIdx args = args ! paramIdx # drop (paramIdx + 1) args"
    using lt by (simp add: Cons_nth_drop_Suc)
  have m: "store (envs st env) ++
             map_of (rev (zip (p # ps) (drop paramIdx args))) =
           (store (envs st env))(p \<mapsto> args ! paramIdx) ++
             map_of (rev (zip ps (drop (paramIdx + 1) args)))"
    by (subst d) (auto simp add: fun_eq_iff map_add_def split: option.splits simp del: drop_Suc)
  have "bindParameters env (p # ps) paramIdx args st =
        bindParameters env ps (paramIdx + 1) args (Set env p (args ! paramIdx) st)"
    using lt by simp
  also have "\<dots> =
      Inr ((Set env p (args ! paramIdx) st)\<lparr>envs := (envs (Set env p (args ! paramIdx) st))(env :=
             (envs (Set env p (args ! paramIdx) st) env)
             \<lparr>store := store (envs (Set env p (args ! paramIdx) st) env) ++
                  map_of (rev (zip ps (drop (paramIdx + 1) args)))\<rparr>)\<rparr>)"
    by (rule Cons.IH [OF le])
  also have "\<dots> =
      Inr (st\<lparr>envs := (envs st)(env := (envs st env)
          \<lparr>store := store (envs st env) ++ map_of (rev (zip (p # ps) (drop paramIdx args)))\<rparr>)\<rparr>)"
    by (simp only: m) (simp add: Set_def)
  finally show ?case .
qed

lemma zip_take_length: "zip xs (take (length xs) ys) = zip xs ys"
proof (induction xs arbitrary: ys)
  case Nil
  then show ?case by simp
next
  case (Cons x xs)
  then show ?case by (cases ys) simp_all
qed


lemma extendFunctionEnv_short:
  "length args < length params \<Longrightarrow> extendFunctionEnv params fenv args st = Inl IndexOutOfRange"
  by (simp add: extendFunctionEnv_def NewEnclosedEnvironment_def NewEnvironment_def
      bindParameters_short)

lemma extendFunctionEnv_enough:
  "length params \<le> length args \<Longrightarrow>
   extendFunctionEnv params fenv args st =
     Inr (nextEnv st,
          st\<lparr>envs := (envs st)(nextEnv st :=
                \<lparr>store = map_of (rev (zip params args)), outer = Some fenv\<rparr>),
             nextEnv := nextEnv st + 1\<rparr>)"
  by (simp add: extendFunctionEnv_def NewEnclosedEnvironment_def NewEnvironment_def
      bindParameters_enough)

text \<open>
  C10. Applying a function binds the parameters to the arguments by position and never
  compares the two counts. With fewer arguments than parameters the binding loop indexes
  past the end of the arguments: \<open>extendFunctionEnv\<close> and with it \<open>applyFunction\<close> panic
  with an index out of range, and no error object is produced. With at least as many
  arguments as parameters the new environment, enclosed by the captured one, binds each
  parameter to the argument at its position (the last binding of a repeated name wins),
  and the surplus arguments are ignored: the outcome is that of the call with the
  arguments cut to the number of parameters.
\<close>

theorem unchecked_parameter_binding:
  "(length args < length params \<longrightarrow>
      extendFunctionEnv params fenv args st = Inl IndexOutOfRange
      \<and> applyFunction B ev (Function i params body fenv) args st = Panic IndexOutOfRange)
   \<and> (length params \<le> length args \<longrightarrow>
      extendFunctionEnv params fenv args st =
        Inr (nextEnv st,
             st\<lparr>envs := (envs st)(nextEnv st :=
                   \<lparr>store = map_of (rev (zip params args)), outer = Some fenv\<rparr>),
                nextEnv := nextEnv st + 1\<rparr>)
      \<and> extendFunctionEnv params fenv args st =
          extendFunctionEnv params fenv (take (length params) args) st
      \<and> applyFunction B ev (Function i params body fenv) args st =
          applyFunction B ev (Function i params body fenv) (take (length params) args) st)"
  by (simp add: extendFunctionEnv_short extendFunctionEnv_enough applyFunction_def
      zip_take_length)

theorem unchecked_parameter_binding_witness:
  "extendFunctionEnv [''x'', ''y''] 0 [Integer 1] host_state = Inl IndexOutOfRange
   \<and> applyFunction Map.empty (Eval Map.empty 5)
        (Function 0 [''x'', ''y''] (BlockStatement [ExpressionStatement (Identifier ''x'')]) 0)
        [Integer 1] host_state = Panic IndexOutOfRange
   \<and> applyFunction Map.empty (Eval Map.empty 5)
        (Function 0 [''x''] (BlockStatement [ExpressionStatement (Identifier ''x'')]) 0)
        [Integer 1, Integer 2] host_state
     = applyFunction Map.empty (Eval Map.empty 5)
        (Function 0 [''x''] (BlockStatement [ExpressionStatement (Identifier ''x'')]) 0)
        [Integer 1] host_state"
  using unchecked_parameter_binding [of "[Integer 1]" "[''x'', ''y'']" 0 host_state Map.empty
      "Eval Map.empty 5" 0 "BlockStatement [ExpressionStatement (Identifier ''x'')]"]
    unchecked_parameter_binding [of "[Integer 1, Integer 2]" "[''x'']" 0 host_state Map.empty
      "Eval Map.empty 5" 0 "BlockStatement [ExpressionStatement (Identifier ''x'')]"]
  by simp

section \<open>Identifier resolution\<close>

lemma Get_scopes:
  "scopes n st e = Some chain \<Longrightarrow>
   Get n st e key =
     Some (case nearest_binding st chain key of Some val \<Rightarrow> (val, True) | None \<Rightarrow> (Nil, False))"
proof (induction n arbitrary: e chain)
  case 0
  then show ?case by simp
next
  case (Suc n)
  show ?case
  proof (cases "outer (envs st e)")
    case None
    with Suc.prems have "chain = [e]" by simp
    with None show ?thesis by (simp split: option.splits)
  next
    case (Some out)
    with Suc.prems obtain rest where r: "scopes n st out = Some rest" and c: "chain = e # rest"
      by auto
    from Suc.IH [OF r] Some c show ?thesis by (simp split: option.splits)
  qed
qed

text \<open>
  C8. Resolving an identifier in an environment whose chain of enclosing scopes ends
  (within the allowed depth): \<open>Get\<close> searches the chain from the innermost scope outward
  and returns the binding of the nearest scope that has one; \<open>evalIdentifier\<close> returns that
  value, and only when no scope of the whole chain binds the name does it consult the
  registry of builtins, returning the builtin of that name if there is one and the error
  "identifier not found: name" otherwise.
\<close>

theorem identifier_resolution_order:
  assumes "scopes n st env = Some chain"
  shows "Get n st env name =
           Some (case nearest_binding st chain name of
                   Some val \<Rightarrow> (val, True)
                 | None \<Rightarrow> (Nil, False))
    \<and> evalIdentifier B n name env st =
        Done (case nearest_binding st chain name of
                Some val \<Rightarrow> val
              | None \<Rightarrow>
                  (case B name of
                     Some builtin \<Rightarrow> Builtin name
                   | None \<Rightarrow> Error (''identifier not found: '' @ name))) st
    \<and> Eval B (Suc n) (Expression (Identifier name)) env st = evalIdentifier B n name env st"
  using Get_scopes [OF assms, of name]
  by (simp add: evalIdentifier_def newError_def split: option.splits)

lemma two_scopes_chain: "scopes 2 two_scopes 1 = Some [1, 0]"
  by (simp add: two_scopes_def host_state_def empty_state_def NewEnclosedEnvironment_def
      NewEnvironment_def Set_def numeral_2_eq_2)

lemma two_scopes_envs:
  "store (envs two_scopes (Suc 0)) = [''x'' \<mapsto> Integer 2, ''len'' \<mapsto> Integer 3]"
  "store (envs two_scopes 0) = [''x'' \<mapsto> Integer 1]"
  by (simp_all add: two_scopes_def host_state_def empty_state_def NewEnclosedEnvironment_def
      NewEnvironment_def Set_def)

theorem identifier_resolution_order_witness:
  "scopes 2 two_scopes 1 = Some [1, 0]
   \<and> evalIdentifier some_builtins 2 ''x'' 1 two_scopes = Done (Integer 2) two_scopes
   \<and> evalIdentifier some_builtins 2 ''len'' 1 two_scopes = Done (Integer 3) two_scopes
   \<and> evalIdentifier some_builtins 2 ''first'' 1 two_scopes = Done (Builtin ''first'') two_scopes
   \<and> evalIdentifier some_builtins 2 ''y'' 1 two_scopes =
       Done (Error ''identifier not found: y'') two_scopes"
  using identifier_resolution_order [OF two_scopes_chain, of "''x''" some_builtins]
    identifier_resolution_order [OF two_scopes_chain, of "''len''" some_builtins]
    identifier_resolution_order [OF two_scopes_chain, of "''first''" some_builtins]
    identifier_resolution_order [OF two_scopes_chain, of "''y''" some_builtins]
    two_scopes_chain
  by (simp add: two_scopes_envs some_builtins_def)

section \<open>Propagation of return values and errors\<close>

lemma statements_signal_test:
  "(case r of Nil \<Rightarrow> False | _ \<Rightarrow> Type r = Inr RETURN_VALUE_OBJ \<or> Type r = Inr ERROR_OBJ)
     = is_signal r"
  by (cases r) simp_all

lemma evalStatements_Cons:
  "evalStatements ev (s # ss) r0 env st =
     bind (ev (Statement s) env st) (\<lambda>r st1.
       if is_signal r then Done r st1 else evalStatements ev ss r env st1)"
  by (simp add: statements_signal_test)

lemma evalProgram_Cons_plain:
  "\<not> is_signal r \<Longrightarrow>
   (case r of ReturnValue _ v \<Rightarrow> Done v st1 | Error _ \<Rightarrow> Done r st1 | _ \<Rightarrow> k) = k"
  by (cases r) simp_all

lemma evalProgram_plain:
  "runs_plain ev pre r0 env st = Some (r, st1) \<Longrightarrow>
   evalProgram ev (pre @ rest) r0 env st = evalProgram ev rest r env st1"
proof (induction pre arbitrary: r0 st)
  case Nil
  then show ?case by simp
next
  case (Cons s pre)
  from Cons.prems obtain r1 st' where
    e: "ev (Statement s) env st = Done r1 st'" and ns: "\<not> is_signal r1"
    and rest: "runs_plain ev pre r1 env st' = Some (r, st1)"
    by (auto split: result.splits if_splits)
  show ?case
    using Cons.IH [OF rest] e ns by (simp add: evalProgram_Cons_plain)
qed

lemma evalStatements_plain:
  "runs_plain ev pre r0 env st = Some (r, st1) \<Longrightarrow>
   evalStatements ev (pre @ rest) r0 env st = evalStatements ev rest r env st1"
proof (induction pre arbitrary: r0 st)
  case Nil
  then show ?case by simp
next
  case (Cons s pre)
  from Cons.prems obtain r1 st' where
    e: "ev (Statement s) env st = Done r1 st'" and ns: "\<not> is_signal r1"
    and rest: "runs_plain ev pre r1 env st' = Some (r, st1)"
    by (auto split: result.splits if_splits)
  show ?case
    using Cons.IH [OF rest] e ns by (simp add: statements_signal_test)
qed

lemma Eval_Done_fuel: "Eval B n nd env st = Done x st' \<Longrightarrow> \<exists>m. n = Suc m"
  by (cases n) simp_all

lemma nested_bubbles:
  assumes "Eval B n (Block b) env st = Done x st'" and "is_signal x"
  shows "Eval B (n + 3 * k) (Block (nested k b post)) env st = Done x st'"
proof (induction k)
  case 0
  from assms(1) show ?case by simp
next
  case (Suc k)
  from Eval_Done_fuel [OF Suc] obtain m where m: "n + 3 * k = Suc m" by blast
  have cond: "Eval B (n + 3 * k) (Expression (BooleanLiteral True)) env st = Done TRUE st"
    by (simp add: m nativeBoolToBooleanObject_def)
  have ife: "Eval B (Suc (n + 3 * k))
        (Expression (IfExpression (BooleanLiteral True) (nested k b post) None)) env st
      = Done x st'"
    by (simp add: evalIfExpression_def cond Suc)
  have "Eval B (Suc (Suc (Suc (n + 3 * k)))) (Block (nested (Suc k) b post)) env st = Done x st'"
    using ife assms(2) by (simp add: statements_signal_test)
  moreover have "n + 3 * Suc k = Suc (Suc (Suc (n + 3 * k)))" by simp
  ultimately show ?case by (simp only:)
qed

text \<open>
  C1. Let the statements \<open>pre\<close> evaluate in order without a signal. At the top level of a
  program, if the next statement evaluates to an error, evaluation stops and that error is
  the result; if it evaluates to a return value, evaluation stops and the wrapped value is
  the result (unwrapped); with no further statement the result is that of the last
  statement. In a block the same error or return value stops evaluation and is the result
  unmodified (the return value still wrapped, with its identity). A signal that a block
  yields is the result, unchanged, of a block that holds it \<open>k\<close> levels deep inside
  \<open>if\<close> consequences, whatever statements follow at each level. Applying a function
  unwraps a return value that its body yields and passes an error on as it is.
\<close>

theorem return_signal_propagation:
  assumes "runs_plain (Eval B n) pre Nil env st = Some (r, st1)"
  shows
   "(\<forall>s post m st2. Eval B n (Statement s) env st1 = Done (Error m) st2 \<longrightarrow>
        Eval B (Suc n) (Program (pre @ s # post)) env st = Done (Error m) st2
        \<and> Eval B (Suc n) (Block (BlockStatement (pre @ s # post))) env st = Done (Error m) st2)
    \<and> (\<forall>s post i v st2. Eval B n (Statement s) env st1 = Done (ReturnValue i v) st2 \<longrightarrow>
        Eval B (Suc n) (Program (pre @ s # post)) env st = Done v st2
        \<and> Eval B (Suc n) (Block (BlockStatement (pre @ s # post))) env st
            = Done (ReturnValue i v) st2)
    \<and> Eval B (Suc n) (Program pre) env st = Done r st1
    \<and> Eval B (Suc n) (Block (BlockStatement pre)) env st = Done r st1
    \<and> (\<forall>b x st' k post. Eval B n (Block b) env st = Done x st' \<and> is_signal x \<longrightarrow>
        Eval B (n + 3 * k) (Block (nested k b post)) env st = Done x st')
    \<and> (\<forall>ev i ps body fenv args e0 st0 j v st2.
        extendFunctionEnv ps fenv args st = Inr (e0, st0)
        \<and> ev (Block body) e0 st0 = Done (ReturnValue j v) st2 \<longrightarrow>
        applyFunction B ev (Function i ps body fenv) args st = Done v st2)
    \<and> (\<forall>ev i ps body fenv args e0 st0 m st2.
        extendFunctionEnv ps fenv args st = Inr (e0, st0)
        \<and> ev (Block body) e0 st0 = Done (Error m) st2 \<longrightarrow>
        applyFunction B ev (Function i ps body fenv) args st = Done (Error m) st2)"
proof (intro conjI allI impI)
  fix s post m st2 assume e: "Eval B n (Statement s) env st1 = Done (Error m) st2"
  show "Eval B (Suc n) (Program (pre @ s # post)) env st = Done (Error m) st2"
    by (simp add: evalProgram_plain [OF assms] e)
  show "Eval B (Suc n) (Block (BlockStatement (pre @ s # post))) env st = Done (Error m) st2"
    by (simp add: evalStatements_plain [OF assms] e)
next
  fix s post i v st2 assume e: "Eval B n (Statement s) env st1 = Done (ReturnValue i v) st2"
  show "Eval B (Suc n) (Program (pre @ s # post)) env st = Done v st2"
    by (simp add: evalProgram_plain [OF assms] e)
  show "Eval B (Suc n) (Block (BlockStatement (pre @ s # post))) env st
            = Done (ReturnValue i v) st2"
    by (simp add: evalStatements_plain [OF assms] e)
next
  show "Eval B (Suc n) (Program pre) env st = Done r st1"
    using evalProgram_plain [OF assms, of "[]"] by simp
  show "Eval B (Suc n) (Block (BlockStatement pre)) env st = Done r st1"
    using evalStatements_plain [OF assms, of "[]"] by simp
next
  fix b x st' k post assume "Eval B n (Block b) env st = Done x st' \<and> is_signal x"
  then show "Eval B (n + 3 * k) (Block (nested k b post)) env st = Done x st'"
    using nested_bubbles by blast
next
  fix ev i ps body fenv args e0 st0 j v st2
  assume "extendFunctionEnv ps fenv args st = Inr (e0, st0)
        \<and> ev (Block body) e0 st0 = Done (ReturnValue j v) st2"
  then show "applyFunction B ev (Function i ps body fenv) args st = Done v st2"
    by (simp add: applyFunction_def)
next
  fix ev i ps body fenv args e0 st0 m st2
  assume "extendFunctionEnv ps fenv args st = Inr (e0, st0)
        \<and> ev (Block body) e0 st0 = Done (Error m) st2"
  then show "applyFunction B ev (Function i ps body fenv) args st = Done (Error m) st2"
    by (simp add: applyFunction_def)
qed


theorem return_signal_propagation_witness:
  "runs_plain (Eval Map.empty 2) [LetStatement ''a'' (IntegerLiteral 1)] Nil 0 host_state
     = Some (Nil, Set 0 ''a'' (Integer 1) host_state)
   \<and> Eval Map.empty 3 (Program early_return_program) 0 host_state
     = Done (Integer 5) ((Set 0 ''a'' (Integer 1) host_state)\<lparr>nextId := 1\<rparr>)
   \<and> Eval Map.empty 3 (Block (BlockStatement early_return_program)) 0 host_state
     = Done (ReturnValue 0 (Integer 5)) ((Set 0 ''a'' (Integer 1) host_state)\<lparr>nextId := 1\<rparr>)
   \<and> Eval Map.empty 9 (Block deep_return) 0 host_state
     = Done (ReturnValue 0 (Integer 10)) (host_state\<lparr>nextId := 1\<rparr>)"
proof -
  have pre: "runs_plain (Eval Map.empty 2) [LetStatement ''a'' (IntegerLiteral 1)] Nil 0 host_state
     = Some (Nil, Set 0 ''a'' (Integer 1) host_state)"
    by (simp add: numeral_2_eq_2)
  have ret: "Eval Map.empty 2 (Statement (ReturnStatement (IntegerLiteral 5))) 0
        (Set 0 ''a'' (Integer 1) host_state)
      = Done (ReturnValue 0 (Integer 5)) ((Set 0 ''a'' (Integer 1) host_state)\<lparr>nextId := 1\<rparr>)"
    by (simp add: numeral_2_eq_2 Set_def host_state_def empty_state_def NewEnvironment_def)
  have blk: "Eval Map.empty 3 (Block (BlockStatement [ReturnStatement (IntegerLiteral 10)])) 0
        host_state = Done (ReturnValue 0 (Integer 10)) (host_state\<lparr>nextId := 1\<rparr>)"
    by (simp add: numeral_3_eq_3 host_state_def empty_state_def NewEnvironment_def)
  have pre0: "runs_plain (Eval Map.empty 3) [] Nil 0 host_state = Some (Nil, host_state)"
    by simp
  have sig: "is_signal (ReturnValue 0 (Integer 10))" by simp
  have p1: "Eval Map.empty (Suc 2)
        (Program ([LetStatement ''a'' (IntegerLiteral 1)] @
           ReturnStatement (IntegerLiteral 5) # [ExpressionStatement (IntegerLiteral 7)])) 0
        host_state
      = Done (Integer 5) ((Set 0 ''a'' (Integer 1) host_state)\<lparr>nextId := 1\<rparr>)
    \<and> Eval Map.empty (Suc 2)
        (Block (BlockStatement ([LetStatement ''a'' (IntegerLiteral 1)] @
           ReturnStatement (IntegerLiteral 5) # [ExpressionStatement (IntegerLiteral 7)]))) 0
        host_state
      = Done (ReturnValue 0 (Integer 5)) ((Set 0 ''a'' (Integer 1) host_state)\<lparr>nextId := 1\<rparr>)"
    by (rule return_signal_propagation
             [OF pre, THEN conjunct2, THEN conjunct1, rule_format, OF ret])
  have p2: "Eval Map.empty (3 + 3 * 2)
        (Block (nested 2 (BlockStatement [ReturnStatement (IntegerLiteral 10)])
           [ExpressionStatement (IntegerLiteral 1)])) 0 host_state
      = Done (ReturnValue 0 (Integer 10)) (host_state\<lparr>nextId := 1\<rparr>)"
    by (rule return_signal_propagation
             [OF pre0, THEN conjunct2, THEN conjunct2, THEN conjunct2, THEN conjunct2,
              THEN conjunct1, rule_format, OF conjI [OF blk sig]])
  show ?thesis
    using pre p1 p2
    by (simp add: early_return_program_def deep_return_def
        del: Eval.simps nested.simps runs_plain.simps)
qed

section \<open>Closures\<close>

lemmas eval_defs = evalIfExpression_def applyFunction_def evalIdentifier_def
  extendFunctionEnv_def NewEnclosedEnvironment_def NewEnvironment_def Set_def
  evalInfixExpression_def both_of_type_def evalIntegerInfixExpression_def
  host_state_def empty_state_def nativeBoolToBooleanObject_def newError_def evalHashLiteral_def

lemma add5_3:
  "outcome_value (Eval Map.empty 12 (Program (adder_statements @ [call_add5 3])) 0 host_state)
     = Some (Integer 8)"
  by (simp add: adder_statements_def call_add5_def eval_defs numeral_eq_Suc)

lemma add5_3_7:
  "outcome_value
     (Eval Map.empty 12 (Program (adder_statements @ [call_add5 3, call_add5 7])) 0 host_state)
     = Some (Integer 12)"
  by (simp add: adder_statements_def call_add5_def eval_defs numeral_eq_Suc)

lemma late_binding:
  "outcome_value (Eval Map.empty 12 (Program late_binding_statements) 0 host_state)
     = Some (Integer 5)"
  by (simp add: late_binding_statements_def eval_defs numeral_eq_Suc)


lemma lexical_not_dynamic:
  "outcome_value
     (Eval Map.empty 14 (Program (adder_statements @ call_from_scope_with_x)) 0 host_state)
     = Some (Integer 6)"
  by (simp add: adder_statements_def call_add5_def call_from_scope_with_x_def eval_defs
      numeral_eq_Suc)

lemma map_of_rev_zip_nth:
  "distinct ps \<Longrightarrow> j < length ps \<Longrightarrow> length ps \<le> length args \<Longrightarrow>
   map_of (rev (zip ps args)) (ps ! j) = Some (args ! j)"
proof -
  assume d: "distinct ps" and j: "j < length ps" and l: "length ps \<le> length args"
  have dz: "distinct (map fst (zip ps args))"
    using d l by (simp add: map_fst_zip_take distinct_take)
  have "map_of (rev (zip ps args)) = map_of (zip ps args)"
    using dz by (metis distinct_rev map_of_inject_set rev_map set_rev)
  moreover have "map_of (zip ps (take (length ps) args)) (ps ! j)
      = Some (take (length ps) args ! j)"
    using d j l by (intro map_of_zip_nth) simp_all
  then have "map_of (zip ps args) (ps ! j) = Some (args ! j)"
    using j by (simp add: zip_take_length)
  ultimately show ?thesis by simp
qed

lemma Eval_FunctionLiteral:
  "Eval B (Suc n) (Expression (FunctionLiteral ps body)) env st =
     Done (Function (nextId st) ps body env) (st\<lparr>nextId := nextId st + 1\<rparr>)"
  by simp

lemma applyFunction_Function:
  "length ps \<le> length args \<Longrightarrow>
   applyFunction B ev (Function i ps body fenv) args st =
     bind (ev (Block body) (nextEnv st)
            (st\<lparr>envs := (envs st)(nextEnv st :=
                  \<lparr>store = map_of (rev (zip ps args)), outer = Some fenv\<rparr>),
               nextEnv := nextEnv st + 1\<rparr>))
          (\<lambda>evaluated st2. Done (unwrapReturnValue evaluated) st2)"
  by (simp add: applyFunction_def extendFunctionEnv_enough)

text \<open>
  C2. Evaluating a function literal yields a Function object that holds the parameters,
  the body and the address of the environment current at that point; no environment is
  created or copied. Applying a Function to at least as many arguments as it has
  parameters creates a fresh environment whose enclosing environment is the captured one
  (the caller's environment plays no part), binds there each parameter to the argument at
  its position, evaluates the body in it and unwraps a return value.
  After \<open>let adder = fn(x) { fn(y) { x + y } }; let add5 = adder(5);\<close> the call \<open>add5(3)\<close>
  evaluates to Integer 8 and a following \<open>add5(7)\<close> to Integer 12; called from a scope
  that binds \<open>x\<close> to 100, \<open>add5(1)\<close> is still 6; and a function sees a binding made in
  its captured environment after the literal was evaluated.
\<close>

theorem closure_semantics:
  "(\<forall>B n ps body env st.
      Eval B (Suc n) (Expression (FunctionLiteral ps body)) env st =
        Done (Function (nextId st) ps body env) (st\<lparr>nextId := nextId st + 1\<rparr>))
   \<and> (\<forall>B ev i ps body fenv args st. length ps \<le> length args \<longrightarrow>
        applyFunction B ev (Function i ps body fenv) args st =
          bind (ev (Block body) (nextEnv st)
                 (st\<lparr>envs := (envs st)(nextEnv st :=
                       \<lparr>store = map_of (rev (zip ps args)), outer = Some fenv\<rparr>),
                    nextEnv := nextEnv st + 1\<rparr>))
               (\<lambda>evaluated st2. Done (unwrapReturnValue evaluated) st2))
   \<and> (\<forall>ps args j. distinct ps \<and> j < length ps \<and> length ps \<le> length args \<longrightarrow>
        map_of (rev (zip ps args)) (ps ! j) = Some (args ! j))
   \<and> outcome_value
        (Eval Map.empty 12 (Program (adder_statements @ [call_add5 3])) 0 host_state)
       = Some (Integer 8)
   \<and> outcome_value
        (Eval Map.empty 12 (Program (adder_statements @ [call_add5 3, call_add5 7])) 0
           host_state)
       = Some (Integer 12)
   \<and> outcome_value
        (Eval Map.empty 14 (Program (adder_statements @ call_from_scope_with_x)) 0 host_state)
       = Some (Integer 6)
   \<and> outcome_value (Eval Map.empty 12 (Program late_binding_statements) 0 host_state)
       = Some (Integer 5)"
  using add5_3 add5_3_7 lexical_not_dynamic late_binding
  by (simp add: Eval_FunctionLiteral applyFunction_Function map_of_rev_zip_nth
      del: Eval.simps)

theorem closure_semantics_witness:
  "applyFunction Map.empty (Eval Map.empty 8)
     (Function 0 [''y'']
        (BlockStatement
           [ExpressionStatement (InfixExpression (Identifier ''x'') ''+'' (Identifier ''y''))])
        0)
     [Integer 3] (Set 0 ''x'' (Integer 5) host_state)
   = Done (Integer 8)
       ((Set 0 ''x'' (Integer 5) host_state)
          \<lparr>envs := (envs (Set 0 ''x'' (Integer 5) host_state))
                     (1 := \<lparr>store = [''y'' \<mapsto> Integer 3], outer = Some 0\<rparr>),
           nextEnv := 2\<rparr>)"
  using closure_semantics [THEN conjunct2, THEN conjunct1, rule_format,
      of "[''y'']" "[Integer 3]" Map.empty "Eval Map.empty 8" 0
         "BlockStatement
           [ExpressionStatement (InfixExpression (Identifier ''x'') ''+'' (Identifier ''y''))]"
         0 "Set 0 ''x'' (Integer 5) host_state"]
  by (simp add: eval_defs numeral_eq_Suc)

section \<open>Errors in sequences of expressions\<close>

lemma evalExpressions_plain:
  "exprs_plain ev pre acc env st = Some (vals, st1) \<Longrightarrow>
   evalExpressions ev (pre @ rest) acc env st = evalExpressions ev rest vals env st1"
proof (induction pre arbitrary: acc st)
  case Nil
  then show ?case by simp
next
  case (Cons e pre)
  from Cons.prems obtain v st' where
    e: "ev (Expression e) env st = Done v st'" and ne: "\<not> isError v"
    and rest: "exprs_plain ev pre (acc @ [v]) env st' = Some (vals, st1)"
    by (auto split: result.splits if_splits)
  show ?case
    using Cons.IH [OF rest] e ne by simp
qed

lemma exprs_plain_no_error:
  "exprs_plain ev exps acc env st = Some (vals, st1) \<Longrightarrow>
   \<forall>v \<in> set acc. \<not> isError v \<Longrightarrow> \<forall>v \<in> set vals. \<not> isError v"
proof (induction exps arbitrary: acc st)
  case Nil
  then show ?case by simp
next
  case (Cons e exps)
  from Cons.prems(1) obtain v st' where
    e: "ev (Expression e) env st = Done v st'" and ne: "\<not> isError v"
    and rest: "exprs_plain ev exps (acc @ [v]) env st' = Some (vals, st1)"
    by (auto split: result.splits if_splits)
  from Cons.prems(2) ne have "\<forall>v \<in> set (acc @ [v]). \<not> isError v" by simp
  from Cons.IH [OF rest this] show ?case .
qed

lemma no_error_not_single:
  "\<forall>v \<in> set vals. \<not> isError v \<Longrightarrow> \<not> (length vals = 1 \<and> isError (vals ! 0))"
  by (cases vals) auto

text \<open>
  C6 (amended). The arguments of a call and the elements of an array literal are
  evaluated strictly from left to right. If the expressions \<open>pre\<close> evaluate without an
  error and the next one yields an error, evaluation stops there: the result of the array
  literal, and of the call once its callee has evaluated without an error, is that single
  error, in the state left by the failing expression, whatever expressions \<open>post\<close> follow
  (they are not evaluated). If no expression yields an error the array literal yields
  the array of the values in order. An infix expression whose left operand yields an error
  returns it without evaluating the right operand. For example \<open>[1, 5 + true, 3]\<close>
  evaluates to the error "type mismatch: INTEGER + BOOLEAN".
\<close>

theorem sequence_error_short_circuit:
  assumes "exprs_plain (Eval B n) pre [] env st = Some (vals, st1)"
  shows
   "(\<forall>e m st2 post. Eval B n (Expression e) env st1 = Done (Error m) st2 \<longrightarrow>
       evalExpressions (Eval B n) (pre @ e # post) [] env st = Done [Error m] st2
       \<and> Eval B (Suc n) (Expression (ArrayLiteral (pre @ e # post))) env st
           = Done (Error m) st2)
    \<and> (\<forall>f fv st0 e m st2 post.
         Eval B n (Expression f) env st0 = Done fv st \<and> \<not> isError fv
         \<and> Eval B n (Expression e) env st1 = Done (Error m) st2 \<longrightarrow>
         Eval B (Suc n) (Expression (CallExpression f (pre @ e # post))) env st0
           = Done (Error m) st2)
    \<and> evalExpressions (Eval B n) pre [] env st = Done vals st1
    \<and> Eval B (Suc n) (Expression (ArrayLiteral pre)) env st
        = Done (Array (nextId st1) vals) (st1\<lparr>nextId := nextId st1 + 1\<rparr>)
    \<and> (\<forall>left operator right m st0 st2.
         Eval B n (Expression left) env st0 = Done (Error m) st2 \<longrightarrow>
         Eval B (Suc n) (Expression (InfixExpression left operator right)) env st0
           = Done (Error m) st2)
    \<and> outcome_value (Eval Map.empty 4 (Expression array_with_mismatch) 0 host_state)
        = Some (Error ''type mismatch: INTEGER + BOOLEAN'')"
proof (intro conjI allI impI)
  fix e m st2 post assume e: "Eval B n (Expression e) env st1 = Done (Error m) st2"
  show "evalExpressions (Eval B n) (pre @ e # post) [] env st = Done [Error m] st2"
    by (simp add: evalExpressions_plain [OF assms] e)
  then show "Eval B (Suc n) (Expression (ArrayLiteral (pre @ e # post))) env st
           = Done (Error m) st2"
    by simp
next
  fix f fv st0 e m st2 post
  assume a: "Eval B n (Expression f) env st0 = Done fv st \<and> \<not> isError fv
         \<and> Eval B n (Expression e) env st1 = Done (Error m) st2"
  then have "evalExpressions (Eval B n) (pre @ e # post) [] env st = Done [Error m] st2"
    by (simp add: evalExpressions_plain [OF assms])
  with a show "Eval B (Suc n) (Expression (CallExpression f (pre @ e # post))) env st0
           = Done (Error m) st2"
    by simp
next
  show all: "evalExpressions (Eval B n) pre [] env st = Done vals st1"
    using evalExpressions_plain [OF assms, of "[]"] by simp
  have "\<forall>v \<in> set vals. \<not> isError v"
    using exprs_plain_no_error [OF assms] by simp
  from no_error_not_single [OF this] all
  show "Eval B (Suc n) (Expression (ArrayLiteral pre)) env st
        = Done (Array (nextId st1) vals) (st1\<lparr>nextId := nextId st1 + 1\<rparr>)"
    by auto
next
  fix left operator right m st0 st2
  assume "Eval B n (Expression left) env st0 = Done (Error m) st2"
  then show "Eval B (Suc n) (Expression (InfixExpression left operator right)) env st0
           = Done (Error m) st2"
    by simp
next
  show "outcome_value (Eval Map.empty 4 (Expression array_with_mismatch) 0 host_state)
        = Some (Error ''type mismatch: INTEGER + BOOLEAN'')"
    by (simp add: array_with_mismatch_def eval_defs infix_message_def numeral_eq_Suc)
qed

theorem sequence_error_short_circuit_witness:
  "exprs_plain (Eval Map.empty 3) [IntegerLiteral 1] [] 0 host_state
     = Some ([Integer 1], host_state)
   \<and> Eval Map.empty 4 (Expression array_with_mismatch) 0 host_state
     = Done (Error ''type mismatch: INTEGER + BOOLEAN'') host_state"
proof -
  have pre: "exprs_plain (Eval Map.empty 3) [IntegerLiteral 1] [] 0 host_state
     = Some ([Integer 1], host_state)"
    by (simp add: numeral_eq_Suc)
  have e: "Eval Map.empty 3
        (Expression (InfixExpression (IntegerLiteral 5) ''+'' (BooleanLiteral True))) 0
        host_state
      = Done (Error ''type mismatch: INTEGER + BOOLEAN'') host_state"
    by (simp add: eval_defs infix_message_def numeral_eq_Suc)
  have "Eval Map.empty (Suc 3)
      (Expression (ArrayLiteral ([IntegerLiteral 1] @
         InfixExpression (IntegerLiteral 5) ''+'' (BooleanLiteral True) # [IntegerLiteral 3])))
      0 host_state
    = Done (Error ''type mismatch: INTEGER + BOOLEAN'') host_state"
    by (rule sequence_error_short_circuit
          [OF pre, THEN conjunct1, rule_format, OF e, THEN conjunct2])
  then show ?thesis
    using pre by (simp add: array_with_mismatch_def del: Eval.simps exprs_plain.simps)
qed

text \<open>
  C6, the example of the claim as stated. The middle element of \<open>[1, fn(){}(), 3]\<close> calls a
  function literal, which is a function; its empty body yields nil, not an error, so all
  three elements are evaluated and the literal yields an array of three elements.
\<close>

theorem array_with_empty_call_counterexample:
  "outcome_value (Eval Map.empty 5 (Expression array_with_empty_call) 0 host_state)
     = Some (Array 1 [Integer 1, Nil, Integer 3])"
  by (simp add: array_with_empty_call_def eval_defs numeral_eq_Suc)

section \<open>Construction of hashes\<close>

lemma stored_under_Cons:
  "HashKey_of ko = Some hk \<Longrightarrow>
   hp(hk \<mapsto> (ko, vo)) ++ stored_under kvs = hp ++ stored_under ((ko, vo) # kvs)"
  by (rule ext) (auto simp add: stored_under_def map_add_def split: option.splits list.splits)

lemma stored_under_Nil: "hp ++ stored_under [] = hp"
  by (rule ext) (simp add: stored_under_def map_add_def)

lemma evalHashPairs_plain:
  "pairs_plain ev pre env st = Some (kvs, st1) \<Longrightarrow>
   evalHashPairs ev (pre @ rest) hid hp env st =
   evalHashPairs ev rest hid (hp ++ stored_under kvs) env st1"
proof (induction pre arbitrary: hp st kvs)
  case Nil
  then show ?case by (simp add: stored_under_Nil)
next
  case (Cons kv pre)
  obtain k v where kv: "kv = (k, v)" by (cases kv)
  from Cons.prems kv obtain ko sta hk vo stb kvs' where
    k: "ev (Expression k) env st = Done ko sta" and nk: "\<not> isError ko"
    and hk: "HashKey_of ko = Some hk"
    and v: "ev (Expression v) env sta = Done vo stb" and nv: "\<not> isError vo"
    and rest: "pairs_plain ev pre env stb = Some (kvs', st1)" and kvs: "kvs = (ko, vo) # kvs'"
    by (auto split: result.splits if_splits option.splits)
  have "evalHashPairs ev ((kv # pre) @ rest) hid hp env st =
        evalHashPairs ev (pre @ rest) hid (hp(hk \<mapsto> (ko, vo))) env stb"
    using k nk hk v nv by (simp add: kv)
  also have "\<dots> = evalHashPairs ev rest hid (hp(hk \<mapsto> (ko, vo)) ++ stored_under kvs') env st1"
    by (rule Cons.IH [OF rest])
  also have "\<dots> = evalHashPairs ev rest hid (hp ++ stored_under kvs) env st1"
    by (simp only: stored_under_Cons [OF hk] kvs)
  finally show ?case .
qed

lemma stored_under_alt:
  "stored_under kvs hk =
     (if filter (\<lambda>p. HashKey_of (fst p) = Some hk) kvs = [] then None
      else Some (last (filter (\<lambda>p. HashKey_of (fst p) = Some hk) kvs)))"
  by (simp add: stored_under_def split: list.splits)

lemma stored_under_last:
  assumes "HashKey_of keyObject = Some hashedKey"
    and "\<forall>p \<in> set later. HashKey_of (fst p) \<noteq> Some hashedKey"
  shows "stored_under (kvs @ (keyObject, valueObject) # later) hashedKey
           = Some (keyObject, valueObject)"
proof -
  have "filter (\<lambda>p. HashKey_of (fst p) = Some hashedKey) later = []"
    using assms(2) by (simp add: filter_empty_conv)
  then show ?thesis
    using assms(1) by (simp add: stored_under_alt)
qed

lemma hash_literal_unfold:
  "Eval B (Suc n) (Expression (HashLiteral pairs)) env st =
     evalHashPairs (Eval B n) pairs (nextId st) Map.empty env (st\<lparr>nextId := nextId st + 1\<rparr>)"
  by (simp add: evalHashLiteral_def)

text \<open>
  C5 (amended). The pairs of a hash literal are processed one after the other in the order
  in which the range loop over the literal's \<open>Pairs\<close> map visits them. Let the pairs \<open>pre\<close>
  visited first evaluate to keys that derive a hash key and to values, none an error. For
  the pair visited next: if its key expression yields an error, that error is the result;
  if it yields an object that derives no hash key, the result is the error
  "unusable as hash key: T" in the state left by the key expression (the value expression
  is not evaluated); if the key derives a hash key and the value expression yields an
  error, that error is the result. With no further pair the result is a hash, of a fresh
  identity, that holds under each hash key the pair (key object, value object) stored
  last under it: a pair visited later overwrites an earlier one with the same hash key.
\<close>

theorem hash_literal_construction:
  assumes "pairs_plain (Eval B n) pre env (st\<lparr>nextId := nextId st + 1\<rparr>) = Some (kvs, st1)"
  shows
   "(\<forall>key val post m st2.
       Eval B n (Expression key) env st1 = Done (Error m) st2 \<longrightarrow>
       Eval B (Suc n) (Expression (HashLiteral (pre @ (key, val) # post))) env st
         = Done (Error m) st2)
    \<and> (\<forall>key val post keyObject t st2.
       Eval B n (Expression key) env st1 = Done keyObject st2
       \<and> Type keyObject = Inr t \<and> t \<noteq> ERROR_OBJ \<and> HashKey_of keyObject = None \<longrightarrow>
       Eval B (Suc n) (Expression (HashLiteral (pre @ (key, val) # post))) env st
         = Done (Error (''unusable as hash key: '' @ ObjectType_string t)) st2)
    \<and> (\<forall>key val post keyObject hashedKey m st2 st3.
       Eval B n (Expression key) env st1 = Done keyObject st2
       \<and> HashKey_of keyObject = Some hashedKey
       \<and> Eval B n (Expression val) env st2 = Done (Error m) st3 \<longrightarrow>
       Eval B (Suc n) (Expression (HashLiteral (pre @ (key, val) # post))) env st
         = Done (Error m) st3)
    \<and> Eval B (Suc n) (Expression (HashLiteral pre)) env st
         = Done (Hash (nextId st) (stored_under kvs)) st1
    \<and> (\<forall>keyObject valueObject hashedKey later.
         HashKey_of keyObject = Some hashedKey
         \<and> (\<forall>p \<in> set later. HashKey_of (fst p) \<noteq> Some hashedKey) \<longrightarrow>
         stored_under (kvs @ (keyObject, valueObject) # later) hashedKey
           = Some (keyObject, valueObject))"
proof (intro conjI allI impI)
  fix key val post m st2
  assume "Eval B n (Expression key) env st1 = Done (Error m) st2"
  then show "Eval B (Suc n) (Expression (HashLiteral (pre @ (key, val) # post))) env st
         = Done (Error m) st2"
    by (simp only: hash_literal_unfold evalHashPairs_plain [OF assms]) simp
next
  fix key val post keyObject t st2
  assume a: "Eval B n (Expression key) env st1 = Done keyObject st2
       \<and> Type keyObject = Inr t \<and> t \<noteq> ERROR_OBJ \<and> HashKey_of keyObject = None"
  then have "\<not> isError keyObject" by (cases keyObject) auto
  with a show "Eval B (Suc n) (Expression (HashLiteral (pre @ (key, val) # post))) env st
         = Done (Error (''unusable as hash key: '' @ ObjectType_string t)) st2"
    by (simp only: hash_literal_unfold evalHashPairs_plain [OF assms]) (simp add: newError_def)
next
  fix key val post keyObject hashedKey m st2 st3
  assume a: "Eval B n (Expression key) env st1 = Done keyObject st2
       \<and> HashKey_of keyObject = Some hashedKey
       \<and> Eval B n (Expression val) env st2 = Done (Error m) st3"
  then have "\<not> isError keyObject" by (cases keyObject) auto
  with a show "Eval B (Suc n) (Expression (HashLiteral (pre @ (key, val) # post))) env st
         = Done (Error m) st3"
    by (simp only: hash_literal_unfold evalHashPairs_plain [OF assms]) simp
next
  show "Eval B (Suc n) (Expression (HashLiteral pre)) env st
         = Done (Hash (nextId st) (stored_under kvs)) st1"
    using evalHashPairs_plain [OF assms, of "[]" "nextId st" Map.empty]
    by (simp only: hash_literal_unfold) simp
next
  fix keyObject and valueObject :: obj and hashedKey and later :: "(obj \<times> obj) list"
  assume "HashKey_of keyObject = Some hashedKey
         \<and> (\<forall>p \<in> set later. HashKey_of (fst p) \<noteq> Some hashedKey)"
  then show "stored_under (kvs @ (keyObject, valueObject) # later) hashedKey
           = Some (keyObject, valueObject)"
    using stored_under_last by blast
qed

theorem hash_literal_construction_witness:
  "pairs_plain (Eval Map.empty 3) [(StringLiteral ''a'', IntegerLiteral 1)] 0
       (host_state\<lparr>nextId := nextId host_state + 1\<rparr>)
     = Some ([(String ''a'', Integer 1)], host_state\<lparr>nextId := nextId host_state + 1\<rparr>)
   \<and> Eval Map.empty 4
       (Expression (HashLiteral [(StringLiteral ''a'', IntegerLiteral 1),
                                 (FunctionLiteral [] (BlockStatement []), IntegerLiteral 2)]))
       0 host_state
     = Done (Error ''unusable as hash key: FUNCTION'') (host_state\<lparr>nextId := 2\<rparr>)"
proof -
  have pre: "pairs_plain (Eval Map.empty 3) [(StringLiteral ''a'', IntegerLiteral 1)] 0
       (host_state\<lparr>nextId := nextId host_state + 1\<rparr>)
     = Some ([(String ''a'', Integer 1)], host_state\<lparr>nextId := nextId host_state + 1\<rparr>)"
    by (simp add: numeral_eq_Suc)
  have e: "Eval Map.empty 3 (Expression (FunctionLiteral [] (BlockStatement []))) 0
        (host_state\<lparr>nextId := nextId host_state + 1\<rparr>)
      = Done (Function 1 [] (BlockStatement []) 0) (host_state\<lparr>nextId := 2\<rparr>)"
    by (simp add: numeral_eq_Suc host_state_def empty_state_def NewEnvironment_def)
  have ty: "Type (Function 1 [] (BlockStatement []) 0) = Inr FUNCTION_OBJ" by simp
  have ne: "FUNCTION_OBJ \<noteq> ERROR_OBJ" by simp
  have hk: "HashKey_of (Function 1 [] (BlockStatement []) 0) = None" by simp
  have "Eval Map.empty (Suc 3)
       (Expression (HashLiteral ([(StringLiteral ''a'', IntegerLiteral 1)] @
          (FunctionLiteral [] (BlockStatement []), IntegerLiteral 2) # [])))
       0 host_state
     = Done (Error (''unusable as hash key: '' @ ObjectType_string FUNCTION_OBJ))
         (host_state\<lparr>nextId := 2\<rparr>)"
    by (rule hash_literal_construction
          [OF pre, THEN conjunct2, THEN conjunct1, rule_format,
           OF conjI [OF e conjI [OF ty conjI [OF ne hk]]]])
  then show ?thesis
    using pre by (simp del: Eval.simps pairs_plain.simps)
qed

text \<open>
  C5, the claim as stated (source order). The \<open>Pairs\<close> of \<open>{1: 10, 1: 20}\<close> are a Go map of
  two entries (the two key nodes are distinct), which the range loop visits in an order
  that Go leaves open. Visited as written the literal maps 1 to 20; visited the other way
  round it maps 1 to 10, which processing in source order never yields.
\<close>

theorem visiting_order_counterexample:
  "outcome_value (Eval Map.empty 5 (Expression (index_by_1 duplicate_key_pairs)) 0 host_state)
     = Some (Integer 20)
   \<and> outcome_value
       (Eval Map.empty 5 (Expression (index_by_1 (rev duplicate_key_pairs))) 0 host_state)
     = Some (Integer 10)"
  by (simp add: index_by_1_def duplicate_key_pairs_def eval_defs evalIndexExpression_def
      evalHashIndexExpression_def numeral_eq_Suc)

end
